theory Spec2Isabelle
  imports Complex_Main "HOL-Library.AList" "HOL-Library.Stream"
begin

section \<open>Values and entities\<close>

text \<open>
  The server is \<^verbatim>\<open>class GameServer\<close> of \<^verbatim>\<open>server.py\<close>. Its threads share one object
  without locks; the model runs each handler (one accepted connection, one received
  chunk, one pass of the game loop, one broadcast) as an atomic state transformer, and
  every reading of the wall clock or of the random generator is an argument.

  A decoded JSON value. Python's \<^verbatim>\<open>int\<close> and \<^verbatim>\<open>float\<close> are both \<open>JNum\<close> over the
  reals: the arithmetic of the model is exact. Of the failures of floating point it keeps
  one, the \<^verbatim>\<open>OverflowError\<close> of a square that exceeds the largest float (see
  \<open>player_distance\<close>); rounding, infinities and \<^verbatim>\<open>nan\<close> are outside the model. A
  dictionary is an association list in insertion order (the order in which Python iterates
  it), with distinct keys.
\<close>

datatype jval =
    JNull
  | JBool bool
  | JNum real
  | JStr string
  | JList "jval list"
  | JDict "(string \<times> jval) list"

type_synonym pdict = "(string \<times> jval) list"

type_synonym client_id = nat

datatype exn =
    AttributeError | NameError | TypeError | KeyError | OSError
  | OverflowError | RecursionError | ValueError

text \<open>Received text is a Python \<^verbatim>\<open>str\<close>: the list of its code points.\<close>

type_synonym unicode = "nat list"

datatype game_phase = MENU | PLAYING | PAUSED | GAME_OVER

datatype difficulty = EASY | MEDIUM | HARD

fun phase_value :: "game_phase \<Rightarrow> int" where
  "phase_value MENU = 1"
| "phase_value PLAYING = 2"
| "phase_value PAUSED = 3"
| "phase_value GAME_OVER = 4"

fun difficulty_value :: "difficulty \<Rightarrow> int" where
  "difficulty_value EASY = 1"
| "difficulty_value MEDIUM = 2"
| "difficulty_value HARD = 3"

record chaser =
  c_id :: nat
  c_x :: real
  c_y :: real
  c_angle :: real
  c_speed :: real
  c_health :: int

record bullet =
  b_x :: real
  b_y :: real
  b_dx :: real
  b_dy :: real

datatype powerup_type = Health | Speed | Immunity

record powerup =
  p_type :: powerup_type
  p_x :: int
  p_y :: int

text \<open>The messages of the server, one constructor for each value of their \<^verbatim>\<open>type\<close> key.\<close>

datatype out_msg =
    Connected client_id int nat int string int
  | ConnectionRejected string
  | ServerInfo string int int
  | PlayerJoined client_id pdict
  | PlayerLeft client_id
  | PlayerRespawned client_id pdict
  | GameStarted int
  | DifficultyChanged int
  | SwordAttack client_id
  | GameStateMsg int "pdict list" "chaser list" "bullet list" "powerup list" real int int

text \<open>What \<^verbatim>\<open>print\<close> writes.\<close>

datatype log_entry =
    ErrorSending exn
  | ErrorBroadcasting client_id exn
  | ErrorAccepting exn
  | ClientConnected client_id
  | ClientDisconnected client_id
  | PlayersOnline nat
  | ClientTimedOut client_id
  | InvalidJSON client_id unicode
  | ErrorHandling client_id exn
  | AutoStarting

text \<open>
  A connection: \<open>send_fails\<close> says whether \<^verbatim>\<open>socket.send\<close> raises (the peer is gone),
  \<open>wire\<close> is what has been written to it, oldest first.
\<close>

record sock =
  send_fails :: bool
  wire :: "out_msg list"
  sock_closed :: bool

record client_info =
  socket :: sock
  address :: string
  is_connected :: bool
  last_heartbeat :: real

text \<open>
  The fields of \<^verbatim>\<open>GameServer\<close>. The attributes \<^verbatim>\<open>player_score_times\<close> and
  \<^verbatim>\<open>last_bullet_time\<close> do not exist until the game loop creates them (the source tests
  \<^verbatim>\<open>hasattr\<close>): \<open>None\<close> is the missing attribute. \<open>console\<close> is the output of
  \<^verbatim>\<open>print\<close>; \<open>broadcast_log\<close> is a history variable holding every message handed to
  \<^verbatim>\<open>broadcast_to_all\<close>, oldest first.
\<close>

record server =
  max_players :: int
  server_description :: string
  difficulty :: difficulty
  clients :: "(client_id \<times> client_info) list"
  game_state :: game_phase
  running :: bool
  auto_started :: bool
  players :: "(client_id \<times> pdict) list"
  chasers :: "chaser list"
  bullets :: "bullet list"
  powerups :: "powerup list"
  game_time :: real
  last_update :: real
  global_score :: int
  last_global_score_time :: real
  player_damage_cooldowns :: "(client_id \<times> real) list"
  chaser_respawn_times :: "(nat \<times> real) list"
  player_score_times :: "(client_id \<times> real) list option"
  last_bullet_time :: "real option"
  console :: "log_entry list"
  broadcast_log :: "out_msg list"

section \<open>Sending and broadcasting\<close>

definition socket_send :: "sock \<Rightarrow> out_msg \<Rightarrow> exn + sock" where
  "socket_send sk m =
     (if send_fails sk \<or> sock_closed sk then Inl OSError else Inr (sk\<lparr>wire := wire sk @ [m]\<rparr>))"

text \<open>
  \<^verbatim>\<open>send_to_client\<close>: the body is inside \<^verbatim>\<open>try ... except Exception\<close>, which prints and
  returns. The result has the type of a call that may raise, as its callers treat it.
\<close>

definition send_to_client :: "sock \<Rightarrow> out_msg \<Rightarrow> exn + (sock \<times> log_entry list)" where
  "send_to_client sk m =
     (case socket_send sk m of
        Inr sk' \<Rightarrow> Inr (sk', [])
      | Inl e \<Rightarrow> Inr (sk, [ErrorSending e]))"

definition set_socket :: "client_id \<Rightarrow> sock \<Rightarrow> server \<Rightarrow> server" where
  "set_socket cid sk s =
     s\<lparr>clients := AList.map_entry cid (\<lambda>info. info\<lparr>socket := sk\<rparr>) (clients s)\<rparr>"

text \<open>
  The loop of \<^verbatim>\<open>broadcast_to_all\<close> over \<^verbatim>\<open>clients_snapshot\<close>; the last argument is
  \<^verbatim>\<open>disconnected_clients\<close>. The socket in the snapshot is the object in \<^verbatim>\<open>self.clients\<close>,
  so what is written shows there.
\<close>

fun broadcast_pass ::
  "(client_id \<times> client_info) list \<Rightarrow> out_msg \<Rightarrow> server \<Rightarrow> client_id list \<Rightarrow> server \<times> client_id list"
where
  "broadcast_pass [] m s dis = (s, dis)"
| "broadcast_pass ((cid, info) # rest) m s dis =
     (case send_to_client (socket info) m of
        Inr (sk', out) \<Rightarrow>
          broadcast_pass rest m ((set_socket cid sk' s)\<lparr>console := console s @ out\<rparr>) dis
      | Inl e \<Rightarrow>
          broadcast_pass rest m (s\<lparr>console := console s @ [ErrorBroadcasting cid e]\<rparr>) (dis @ [cid]))"

definition print_players_online :: "server \<Rightarrow> server" where
  "print_players_online s = s\<lparr>console := console s @ [PlayersOnline (length (clients s))]\<rparr>"

definition close_and_forget :: "client_id \<Rightarrow> server \<Rightarrow> server" where
  "close_and_forget cid s =
     s\<lparr>clients := AList.delete cid (clients s), players := AList.delete cid (players s)\<rparr>"

text \<open>
  \<^verbatim>\<open>broadcast_to_all\<close> disconnects the clients it collected, and \<^verbatim>\<open>disconnect_client\<close>
  broadcasts \<^verbatim>\<open>player_left\<close> (\<^verbatim>\<open>broadcast_player_left\<close>): the two are mutually recursive.
\<close>

function broadcast_to_all :: "out_msg \<Rightarrow> server \<Rightarrow> server"
  and disconnect_client :: "client_id \<Rightarrow> server \<Rightarrow> server"
where
  "broadcast_to_all m s =
     (let r = broadcast_pass (clients s) m (s\<lparr>broadcast_log := broadcast_log s @ [m]\<rparr>) []
      in fold disconnect_client (snd r) (fst r))"
| "disconnect_client cid s =
     (let s1 = close_and_forget cid s;
          s2 = broadcast_to_all (PlayerLeft cid) s1
      in print_players_online (s2\<lparr>console := console s2 @ [ClientDisconnected cid]\<rparr>))"
  by pat_completeness auto
termination
proof (relation "measure (\<lambda>a. case a of Inl _ \<Rightarrow> 0 | Inr _ \<Rightarrow> Suc 0)")
  show "wf (measure (\<lambda>a. case a of Inl (_ :: out_msg \<times> server) \<Rightarrow> 0 | Inr (_ :: client_id \<times> server) \<Rightarrow> Suc 0))"
    by simp
next
  fix m :: out_msg and s :: server and r x and y :: server
  assume r: "r = broadcast_pass (clients s) m (s\<lparr>broadcast_log := broadcast_log s @ [m]\<rparr>) []"
    and x: "x \<in> set (snd r)"
  have "snd (broadcast_pass cl m t dis) = dis" for cl t dis
    by (induction cl m t dis rule: broadcast_pass.induct)
       (auto simp: send_to_client_def split: sum.splits)
  with r x show "(Inr (x, y), Inl (m, s)) \<in> measure (\<lambda>a. case a of Inl _ \<Rightarrow> 0 | Inr _ \<Rightarrow> Suc 0)"
    by simp
next
  fix cid :: client_id and s :: server and s1 :: server
  show "(Inl (PlayerLeft cid, s1), Inr (cid, s)) \<in> measure (\<lambda>a. case a of Inl _ \<Rightarrow> 0 | Inr _ \<Rightarrow> Suc 0)"
    by simp
qed

section \<open>Accepting connections\<close>

text \<open>\<^verbatim>\<open>__init__\<close>, after the configuration is read; \<open>now\<close> is \<^verbatim>\<open>time.time()\<close>.\<close>

definition initial_server :: "int \<Rightarrow> string \<Rightarrow> difficulty \<Rightarrow> real \<Rightarrow> server" where
  "initial_server cap descr diff now =
     \<lparr>max_players = cap, server_description = descr, difficulty = diff, clients = [],
      game_state = MENU, running = True, auto_started = False, players = [], chasers = [],
      bullets = [], powerups = [], game_time = 0, last_update = now, global_score = 0,
      last_global_score_time = 0, player_damage_cooldowns = [], chaser_respawn_times = [],
      player_score_times = None, last_bullet_time = None, console = [], broadcast_log = []\<rparr>"

text \<open>The search \<^verbatim>\<open>while client_id in used_ids: client_id += 1\<close>.\<close>

function lowest_free_id :: "client_id list \<Rightarrow> client_id \<Rightarrow> client_id" where
  "lowest_free_id used_ids client_id =
     (if client_id \<in> set used_ids then lowest_free_id used_ids (client_id + 1) else client_id)"
  by pat_completeness auto
termination
proof (relation "measure (\<lambda>(used_ids, client_id). Suc (Max (set used_ids)) - client_id)")
  fix used_ids :: "client_id list" and client_id :: client_id
  assume "client_id \<in> set used_ids"
  then have "client_id \<le> Max (set used_ids)"
    by simp
  then show "((used_ids, client_id + 1), (used_ids, client_id))
      \<in> measure (\<lambda>(used_ids, client_id). Suc (Max (set used_ids)) - client_id)"
    by simp
qed simp

definition new_player :: "client_id \<Rightarrow> pdict" where
  "new_player cid =
     [(''id'', JNum (real cid)), (''x'', JNum 400), (''y'', JNum 300), (''angle'', JNum 0),
      (''health'', JNum 6), (''max_health'', JNum 6), (''score'', JNum 0),
      (''character'', JNum 0), (''sword_attacking'', JBool False),
      (''speed_boost_active'', JBool False), (''immunity_boost_active'', JBool False)]"

definition broadcast_player_joined :: "client_id \<Rightarrow> server \<Rightarrow> exn + server" where
  "broadcast_player_joined cid s =
     (case map_of (players s) cid of
        None \<Rightarrow> Inl KeyError
      | Some p \<Rightarrow> Inr (broadcast_to_all (PlayerJoined cid p) s))"

datatype accept_result = Rejected sock | Accepted client_id | AcceptFailed

text \<open>The handler \<^verbatim>\<open>except Exception\<close> of the accept loop.\<close>

definition accept_error :: "exn \<Rightarrow> server \<Rightarrow> server" where
  "accept_error e s = (if running s then s\<lparr>console := console s @ [ErrorAccepting e]\<rparr> else s)"

definition server_full :: "server \<Rightarrow> bool" where
  "server_full s \<longleftrightarrow> int (length (clients s)) \<ge> max_players s \<and> max_players s \<noteq> 0"

text \<open>
  One pass of the loop of \<^verbatim>\<open>accept_connections\<close>, for the connection that
  \<^verbatim>\<open>accept()\<close> returned; \<open>now\<close> is \<^verbatim>\<open>time.time()\<close>.
\<close>

definition accept_connection :: "sock \<Rightarrow> string \<Rightarrow> real \<Rightarrow> server \<Rightarrow> accept_result \<times> server" where
  "accept_connection client_socket client_address now s =
     (if server_full s then
        (case send_to_client client_socket (ConnectionRejected ''Server is full'') of
           Inl e \<Rightarrow> (AcceptFailed, accept_error e s)
         | Inr (sk, out) \<Rightarrow> (Rejected (sk\<lparr>sock_closed := True\<rparr>), s\<lparr>console := console s @ out\<rparr>))
      else
        let client_id = lowest_free_id (map fst (clients s)) 1;
            s1 = s\<lparr>clients := AList.update client_id
                   \<lparr>socket = client_socket, address = client_address, is_connected = True,
                    last_heartbeat = now\<rparr> (clients s)\<rparr>;
            s2 = s1\<lparr>players := AList.update client_id (new_player client_id) (players s1)\<rparr>;
            welcome_msg = Connected client_id (max_players s2) (length (clients s2))
                            (phase_value (game_state s2)) (server_description s2)
                            (difficulty_value (difficulty s2))
        in case send_to_client client_socket welcome_msg of
             Inl e \<Rightarrow> (AcceptFailed, accept_error e s2)
           | Inr (sk, out) \<Rightarrow>
               (case broadcast_player_joined client_id
                       ((set_socket client_id sk s2)\<lparr>console := console s2 @ out\<rparr>) of
                  Inl e \<Rightarrow> (AcceptFailed, accept_error e s2)
                | Inr s3 \<Rightarrow>
                    (Accepted client_id,
                     print_players_online (s3\<lparr>console := console s3 @ [ClientConnected client_id]\<rparr>))))"

section \<open>Reading Python values\<close>

text \<open>
  Arithmetic accepts \<^verbatim>\<open>int\<close>, \<^verbatim>\<open>float\<close> and \<^verbatim>\<open>bool\<close> (\<^verbatim>\<open>True\<close> is 1) and raises
  \<^verbatim>\<open>TypeError\<close> on every other JSON value.
\<close>

fun num :: "jval \<Rightarrow> real option" where
  "num (JNum r) = Some r"
| "num (JBool b) = Some (if b then 1 else 0)"
| "num v = None"

text \<open>Truth value testing, as \<^verbatim>\<open>if v:\<close> does.\<close>

fun truthy :: "jval \<Rightarrow> bool" where
  "truthy JNull = False"
| "truthy (JBool b) = b"
| "truthy (JNum r) = (r \<noteq> 0)"
| "truthy (JStr str) = (str \<noteq> [])"
| "truthy (JList vs) = (vs \<noteq> [])"
| "truthy (JDict kvs) = (kvs \<noteq> [])"

text \<open>\<^verbatim>\<open>d[key]\<close> read as a number.\<close>

definition num_field :: "pdict \<Rightarrow> string \<Rightarrow> exn + real" where
  "num_field d key =
     (case map_of d key of
        None \<Rightarrow> Inl KeyError
      | Some v \<Rightarrow> (case num v of None \<Rightarrow> Inl TypeError | Some r \<Rightarrow> Inr r))"

text \<open>\<^verbatim>\<open>d.get(key, False)\<close> used as a condition.\<close>

definition flag :: "pdict \<Rightarrow> string \<Rightarrow> bool" where
  "flag d key = (case map_of d key of None \<Rightarrow> False | Some v \<Rightarrow> truthy v)"

text \<open>The largest finite \<^verbatim>\<open>float\<close>, \<^verbatim>\<open>sys.float_info.max\<close>.\<close>

definition float_max :: real where
  "float_max = 2 ^ 1024 - 2 ^ 971"

text \<open>
  \<^verbatim>\<open>math.sqrt((player['x'] - ex)**2 + (player['y'] - ey)**2)\<close> for a player and the
  position of a chaser or a bullet. The operands are evaluated from left to right. A
  difference whose square is beyond the largest float raises \<^verbatim>\<open>OverflowError\<close>: the
  operator \<^verbatim>\<open>**\<close> does for a \<^verbatim>\<open>float\<close>, and for an \<^verbatim>\<open>int\<close> the conversion to
  \<^verbatim>\<open>float\<close> does. Below that bound the value is the exact one: the rounding of the
  floating point operations is not modelled.
\<close>

definition player_distance :: "pdict \<Rightarrow> real \<Rightarrow> real \<Rightarrow> exn + real" where
  "player_distance player ex ey =
     (case num_field player ''x'' of
        Inl e \<Rightarrow> Inl e
      | Inr px \<Rightarrow>
          if (px - ex)\<^sup>2 > float_max then Inl OverflowError
          else
            (case num_field player ''y'' of
               Inl e \<Rightarrow> Inl e
             | Inr py \<Rightarrow>
                 if (py - ey)\<^sup>2 > float_max then Inl OverflowError
                 else Inr (sqrt ((px - ex)\<^sup>2 + (py - ey)\<^sup>2))))"

section \<open>Starting the game\<close>

text \<open>
  The generator \<^verbatim>\<open>random\<close> is an argument: \<open>draws\<close> is the stream of pairs
  \<^verbatim>\<open>(randint(100, 700), randint(100, 500))\<close> still to come. The loop
  \<^verbatim>\<open>while attempts < 50\<close> of \<^verbatim>\<open>spawn_chasers\<close> and \<^verbatim>\<open>spawn_single_chaser\<close>.
\<close>

function spawn_attempts ::
  "nat \<Rightarrow> int \<times> int \<Rightarrow> (int \<times> int) stream \<Rightarrow> (int \<times> int) \<times> (int \<times> int) stream"
where
  "spawn_attempts attempts xy draws =
     (if attempts < 50 then
        (let xy' = shd draws;
             distance_from_center = sqrt ((real_of_int (fst xy') - 400)\<^sup>2 + (real_of_int (snd xy') - 300)\<^sup>2)
         in if distance_from_center \<ge> 200 then (xy', stl draws)
            else spawn_attempts (attempts + 1) xy' (stl draws))
      else (xy, draws))"
  by pat_completeness auto
termination
  by (relation "measure (\<lambda>(attempts, xy, draws). 50 - attempts)") auto

definition get_chaser_count :: "difficulty \<Rightarrow> nat" where
  "get_chaser_count d = (if d = EASY then 1 else if d = MEDIUM then 2 else 3)"

definition get_chaser_speed :: "difficulty \<Rightarrow> real" where
  "get_chaser_speed d = (if d = EASY then 2.0 else if d = MEDIUM then 1.0 else 0.5)"

text \<open>
  \<^verbatim>\<open>spawn_single_chaser\<close>. The first pass of its loop always runs, so the starting
  position of \<open>spawn_attempts\<close> is never returned.
\<close>

definition spawn_single_chaser :: "nat \<Rightarrow> (int \<times> int) stream \<Rightarrow> server \<Rightarrow> server \<times> (int \<times> int) stream" where
  "spawn_single_chaser chaser_id draws s =
     (let (xy, draws') = spawn_attempts 0 (0, 0) draws;
          chaser = \<lparr>c_id = chaser_id, c_x = real_of_int (fst xy), c_y = real_of_int (snd xy),
                    c_angle = 0, c_speed = get_chaser_speed (difficulty s), c_health = 1\<rparr>
      in (s\<lparr>chasers := chasers s @ [chaser]\<rparr>, draws'))"

fun spawn_each :: "nat list \<Rightarrow> (int \<times> int) stream \<Rightarrow> server \<Rightarrow> server \<times> (int \<times> int) stream" where
  "spawn_each [] draws s = (s, draws)"
| "spawn_each (i # is) draws s =
     (let (s', draws') = spawn_single_chaser i draws s in spawn_each is draws' s')"

text \<open>\<^verbatim>\<open>spawn_chasers\<close>: the body of its loop is the body of \<^verbatim>\<open>spawn_single_chaser\<close>.\<close>

definition spawn_chasers :: "(int \<times> int) stream \<Rightarrow> server \<Rightarrow> server" where
  "spawn_chasers draws s =
     fst (spawn_each [0 ..< get_chaser_count (difficulty s)] draws (s\<lparr>chasers := []\<rparr>))"

definition reset_player :: "pdict \<Rightarrow> pdict" where
  "reset_player player =
     AList.update ''sword_attacking'' (JBool False)
       (AList.update ''score'' (JNum 0)
         (AList.update ''health'' (JNum 6)
           (AList.update ''y'' (JNum 300)
             (AList.update ''x'' (JNum 400) player))))"

definition start_game :: "(int \<times> int) stream \<Rightarrow> server \<Rightarrow> server" where
  "start_game draws s =
     (let s1 = s\<lparr>game_state := PLAYING, game_time := 0, auto_started := True,
                 player_damage_cooldowns := [],
                 player_score_times := (case player_score_times s of None \<Rightarrow> None | Some _ \<Rightarrow> Some []),
                 global_score := 0, last_global_score_time := 0,
                 chaser_respawn_times := [],
                 players := map (\<lambda>(player_id, player). (player_id, reset_player player)) (players s)\<rparr>
      in broadcast_to_all (GameStarted (difficulty_value (difficulty s1))) (spawn_chasers draws s1))"

text \<open>\<^verbatim>\<open>auto_start_game\<close>, after its sleep of three seconds.\<close>

definition auto_start_game :: "(int \<times> int) stream \<Rightarrow> server \<Rightarrow> server" where
  "auto_start_game draws s =
     (if game_state s = MENU \<and> \<not> auto_started s
      then start_game draws (s\<lparr>console := console s @ [AutoStarting], auto_started := True\<rparr>)
      else s)"

section \<open>Messages from clients\<close>

text \<open>\<^verbatim>\<open>message.get(key)\<close>: only a dictionary has the method.\<close>

definition msg_get :: "jval \<Rightarrow> string \<Rightarrow> exn + jval option" where
  "msg_get message key =
     (case message of JDict d \<Rightarrow> Inr (map_of d key) | _ \<Rightarrow> Inl AttributeError)"

text \<open>
  \<^verbatim>\<open>difficulty in [d.value for d in Difficulty]\<close> followed by \<^verbatim>\<open>Difficulty(difficulty)\<close>:
  the comparison is \<^verbatim>\<open>==\<close>, which \<^verbatim>\<open>1.0\<close> and \<^verbatim>\<open>True\<close> pass for 1.
\<close>

definition difficulty_of :: "jval \<Rightarrow> difficulty option" where
  "difficulty_of v =
     (case v of
        JNum r \<Rightarrow> (if r = 1 then Some EASY else if r = 2 then Some MEDIUM
                   else if r = 3 then Some HARD else None)
      | JBool b \<Rightarrow> (if b then Some EASY else None)
      | _ \<Rightarrow> None)"

text \<open>The loop \<^verbatim>\<open>for key, value in player_data.items(): player[key] = value\<close>.\<close>

definition merge_fields :: "(string \<times> jval) list \<Rightarrow> pdict \<Rightarrow> pdict" where
  "merge_fields player_data player = fold (\<lambda>(key, val). AList.update key val) player_data player"

text \<open>
  \<^verbatim>\<open>process_client_message\<close>; \<open>now\<close> is \<^verbatim>\<open>time.time()\<close> and \<open>draws\<close> the random
  positions, for the branches that read them. In the branch \<^verbatim>\<open>info_request\<close> the
  argument \<^verbatim>\<open>client_socket\<close> of the call is a name that is bound neither in the function
  nor in the module, so evaluating it raises \<^verbatim>\<open>NameError\<close> before anything is sent.
\<close>

definition process_client_message ::
  "real \<Rightarrow> (int \<times> int) stream \<Rightarrow> client_id \<Rightarrow> jval \<Rightarrow> server \<Rightarrow> exn + server"
where
  "process_client_message now draws client_id message s =
     (case msg_get message ''type'' of
        Inl e \<Rightarrow> Inl e
      | Inr msg_type \<Rightarrow>
          if msg_type = Some (JStr ''player_update'') then
            (case map_of (players s) client_id of
               None \<Rightarrow> Inr s
             | Some player \<Rightarrow>
                 (case msg_get message ''data'' of
                    Inl e \<Rightarrow> Inl e
                  | Inr None \<Rightarrow> Inr s
                  | Inr (Some (JDict player_data)) \<Rightarrow>
                      Inr (s\<lparr>players := AList.update client_id (merge_fields player_data player) (players s)\<rparr>)
                  | Inr (Some _) \<Rightarrow> Inl AttributeError))
          else if msg_type = Some (JStr ''player_action'') then
            (case msg_get message ''action'' of
               Inl e \<Rightarrow> Inl e
             | Inr action \<Rightarrow>
                 (case map_of (players s) client_id of
                    Some player \<Rightarrow>
                      if action = Some (JStr ''sword_attack'') then
                        Inr (broadcast_to_all (SwordAttack client_id)
                              (s\<lparr>players := AList.update client_id
                                    (AList.update ''sword_attacking'' (JBool True) player) (players s)\<rparr>))
                      else Inr s
                  | None \<Rightarrow> Inr s))
          else if msg_type = Some (JStr ''heartbeat'') then
            Inr (s\<lparr>clients := AList.map_entry client_id (\<lambda>info. info\<lparr>last_heartbeat := now\<rparr>) (clients s)\<rparr>)
          else if msg_type = Some (JStr ''start_game'') then
            (if game_state s = MENU then Inr (start_game draws s) else Inr s)
          else if msg_type = Some (JStr ''set_difficulty'') then
            (case msg_get message ''difficulty'' of
               Inl e \<Rightarrow> Inl e
             | Inr None \<Rightarrow> Inr s
             | Inr (Some v) \<Rightarrow>
                 (case difficulty_of v of
                    None \<Rightarrow> Inr s
                  | Some d \<Rightarrow> Inr (broadcast_to_all (DifficultyChanged (difficulty_value d)) (s\<lparr>difficulty := d\<rparr>))))
          else if msg_type = Some (JStr ''info_request'') then
            Inl NameError
          else Inr s)"

section \<open>The reader of one connection\<close>

text \<open>
  What \<^verbatim>\<open>client_socket.recv(4096).decode('utf-8')\<close> gives: text (empty when the peer
  closed), \<^verbatim>\<open>ConnectionResetError\<close>, or another exception.
\<close>

datatype recv_result = Data unicode | ConnectionReset | RecvFailed exn

text \<open>
  The thread of \<^verbatim>\<open>handle_client\<close> after one pass of its loop: still reading, with its
  buffer; out of the loop, after \<^verbatim>\<open>disconnect_client\<close>; or dead of an exception raised
  outside the \<^verbatim>\<open>try\<close>.
\<close>

datatype reader = Reading unicode | Finished | Crashed exn

text \<open>The text of a string of ASCII characters.\<close>

definition text_of :: "string \<Rightarrow> unicode" where
  "text_of str = map of_char str"

text \<open>
  \<^verbatim>\<open>str.strip()\<close> removes the leading and the trailing white space. White space is what
  \<^verbatim>\<open>str.isspace\<close> accepts: the code points of general category \<^verbatim>\<open>Zs\<close> and those of
  bidirectional class \<^verbatim>\<open>WS\<close>, \<^verbatim>\<open>B\<close> or \<^verbatim>\<open>S\<close>, which are U+0009 to U+000D, U+001C to
  U+001F, U+0020, U+0085, U+00A0, U+1680, U+2000 to U+200A, U+2028, U+2029, U+202F, U+205F
  and U+3000.
\<close>

definition is_space :: "nat \<Rightarrow> bool" where
  "is_space c \<longleftrightarrow>
     (0x09 \<le> c \<and> c \<le> 0x0D) \<or> (0x1C \<le> c \<and> c \<le> 0x20) \<or> c = 0x85 \<or> c = 0xA0 \<or> c = 0x1680
     \<or> (0x2000 \<le> c \<and> c \<le> 0x200A) \<or> c = 0x2028 \<or> c = 0x2029 \<or> c = 0x202F \<or> c = 0x205F
     \<or> c = 0x3000"

definition strip :: "unicode \<Rightarrow> unicode" where
  "strip str = rev (dropWhile is_space (rev (dropWhile is_space str)))"

text \<open>
  What \<^verbatim>\<open>json.loads\<close> does with a text: it returns the decoded value, it raises
  \<^verbatim>\<open>json.JSONDecodeError\<close>, or it raises another exception (\<^verbatim>\<open>RecursionError\<close> on
  deeply nested brackets, \<^verbatim>\<open>ValueError\<close> on an integer literal beyond the digit limit).
\<close>

datatype decoded = Decoded jval | JSONDecodeError | DecodeRaised exn

text \<open>
  One line of the buffer; \<^verbatim>\<open>json.loads\<close> is the argument \<open>json_loads\<close>. The handler
  \<^verbatim>\<open>except json.JSONDecodeError\<close> catches that exception alone: every other one, of the
  decoder or of \<^verbatim>\<open>process_client_message\<close>, leaves the line raised.
\<close>

definition handle_line ::
  "(unicode \<Rightarrow> decoded) \<Rightarrow> real \<Rightarrow> (int \<times> int) stream \<Rightarrow> client_id \<Rightarrow> unicode \<Rightarrow> server \<Rightarrow> exn + server"
where
  "handle_line json_loads now draws client_id line s =
     (if strip line \<noteq> [] then
        (case json_loads (strip line) of
           Decoded message \<Rightarrow> process_client_message now draws client_id message s
         | JSONDecodeError \<Rightarrow> Inr (s\<lparr>console := console s @ [InvalidJSON client_id line]\<rparr>)
         | DecodeRaised e \<Rightarrow> Inl e)
      else Inr s)"

text \<open>
  The loop \<^verbatim>\<open>while '\n' in buffer\<close>; the line feed is the code point 10. An exception
  leaves the loop with the state that the lines before it produced.
\<close>

function process_buffer ::
  "(unicode \<Rightarrow> decoded) \<Rightarrow> real \<Rightarrow> (int \<times> int) stream \<Rightarrow> client_id \<Rightarrow> unicode \<Rightarrow> server
     \<Rightarrow> (exn \<times> server) + (unicode \<times> server)"
where
  "process_buffer json_loads now draws client_id buffer s =
     (if 10 \<in> set buffer then
        (case handle_line json_loads now draws client_id (takeWhile (\<lambda>c. c \<noteq> 10) buffer) s of
           Inl e \<Rightarrow> Inl (e, s)
         | Inr s' \<Rightarrow>
             process_buffer json_loads now draws client_id
               (tl (dropWhile (\<lambda>c. c \<noteq> 10) buffer)) s')
      else Inr (buffer, s))"
  by pat_completeness auto
termination
proof (relation "measure (\<lambda>(json_loads, now, draws, client_id, buffer, s). length buffer)")
  fix buffer :: unicode
  assume "10 \<in> set buffer"
  then have "dropWhile (\<lambda>c. c \<noteq> 10) buffer \<noteq> []"
    by (simp add: dropWhile_eq_Nil_conv)
  then have "length (tl (dropWhile (\<lambda>c. c \<noteq> 10) buffer)) < length (dropWhile (\<lambda>c. c \<noteq> 10) buffer)"
    by simp
  also have "\<dots> \<le> length buffer"
    by (rule length_dropWhile_le)
  finally show "\<And>json_loads now draws client_id s x2.
      ((json_loads :: unicode \<Rightarrow> decoded, now :: real, draws :: (int \<times> int) stream, client_id :: client_id,
        tl (dropWhile (\<lambda>c. c \<noteq> 10) buffer), x2 :: server),
       (json_loads, now, draws, client_id, buffer, s :: server))
      \<in> measure (\<lambda>(json_loads, now, draws, client_id, buffer, s). length buffer)"
    by simp
qed simp

text \<open>
  One pass of \<^verbatim>\<open>while self.running and self.clients[client_id]['connected']\<close> with what
  \<^verbatim>\<open>recv\<close> gave; \<open>buffer\<close> is the local variable of the thread.
\<close>

definition handle_client ::
  "(unicode \<Rightarrow> decoded) \<Rightarrow> real \<Rightarrow> (int \<times> int) stream \<Rightarrow> client_id \<Rightarrow> unicode \<Rightarrow> recv_result
     \<Rightarrow> server \<Rightarrow> reader \<times> server"
where
  "handle_client json_loads now draws client_id buffer received s =
     (if \<not> running s then (Finished, disconnect_client client_id s)
      else
        (case map_of (clients s) client_id of
           None \<Rightarrow> (Crashed KeyError, s)
         | Some info \<Rightarrow>
             if \<not> is_connected info then (Finished, disconnect_client client_id s)
             else
               (case received of
                  ConnectionReset \<Rightarrow> (Finished, disconnect_client client_id s)
                | RecvFailed e \<Rightarrow>
                    (Finished,
                     disconnect_client client_id
                       (s\<lparr>console := console s @ [ErrorHandling client_id e]\<rparr>))
                | Data data \<Rightarrow>
                    if data = [] then (Finished, disconnect_client client_id s)
                    else
                      (case process_buffer json_loads now draws client_id (buffer @ data) s of
                         Inr (buffer', s') \<Rightarrow> (Reading buffer', s')
                       | Inl (e, s') \<Rightarrow>
                           (Finished,
                            disconnect_client client_id
                              (s'\<lparr>console := console s' @ [ErrorHandling client_id e]\<rparr>))))))"

section \<open>The simulation\<close>

text \<open>What one pass of \<^verbatim>\<open>game_loop\<close> reads from the clock and from \<^verbatim>\<open>random\<close>.\<close>

record tick_env =
  env_now :: real
  env_sweep_now :: real
  env_hit_now :: "client_id \<Rightarrow> real"
  env_draws :: "(int \<times> int) stream"
  env_roll :: real
  env_powerup :: powerup

text \<open>
  A step of the game loop returns the next state or raises. Nothing is rolled back when a
  statement raises: \<open>Inl (e, s)\<close> carries the state \<open>s\<close> that the statements before
  the raise have left behind.
\<close>

type_synonym outcome = "(exn \<times> server) + server"

fun for_each :: "('a \<Rightarrow> server \<Rightarrow> outcome) \<Rightarrow> 'a list \<Rightarrow> server \<Rightarrow> outcome" where
  "for_each f [] s = Inr s"
| "for_each f (x # xs) s = (case f x s of Inl raised \<Rightarrow> Inl raised | Inr s' \<Rightarrow> for_each f xs s')"

definition check_client_timeouts :: "real \<Rightarrow> server \<Rightarrow> server" where
  "check_client_timeouts current_time s =
     (let disconnected_clients =
            map fst (filter (\<lambda>(client_id, client_info).
                       is_connected client_info \<and> current_time - last_heartbeat client_info > 60)
                     (clients s))
      in fold disconnect_client disconnected_clients
           (s\<lparr>console := console s @ map ClientTimedOut disconnected_clients\<rparr>))"

text \<open>
  The search for the nearest player of \<^verbatim>\<open>update_chasers\<close> and \<^verbatim>\<open>spawn_bullets\<close>;
  \<open>None\<close> is the start \<^verbatim>\<open>nearest_player = None, min_distance = inf\<close>.
\<close>

fun find_nearest :: "pdict list \<Rightarrow> real \<Rightarrow> real \<Rightarrow> (pdict \<times> real) option \<Rightarrow> exn + (pdict \<times> real) option" where
  "find_nearest [] ex ey best = Inr best"
| "find_nearest (player # rest) ex ey best =
     (case player_distance player ex ey of
        Inl e \<Rightarrow> Inl e
      | Inr distance \<Rightarrow>
          find_nearest rest ex ey
            (case best of
               None \<Rightarrow> Some (player, distance)
             | Some (nearest_player, min_distance) \<Rightarrow>
                 if distance < min_distance then Some (player, distance)
                 else Some (nearest_player, min_distance)))"

text \<open>\<^verbatim>\<open>math.atan2\<close> and \<^verbatim>\<open>math.degrees\<close> over the reals.\<close>

definition atan2 :: "real \<Rightarrow> real \<Rightarrow> real" where
  "atan2 y x =
     (if x > 0 then arctan (y / x)
      else if x < 0 \<and> y \<ge> 0 then arctan (y / x) + pi
      else if x < 0 then arctan (y / x) - pi
      else if y > 0 then pi / 2
      else if y < 0 then - pi / 2
      else 0)"

definition degrees :: "real \<Rightarrow> real" where
  "degrees r = r * 180 / pi"

text \<open>
  The body of \<^verbatim>\<open>for chaser in self.chasers\<close> in \<^verbatim>\<open>update_chasers\<close>: the chaser as the
  body leaves it. The body writes to the chaser after its last statement that can raise.
\<close>

definition update_chaser :: "pdict list \<Rightarrow> chaser \<Rightarrow> exn + chaser" where
  "update_chaser all_players chaser =
     (case find_nearest all_players (c_x chaser) (c_y chaser) None of
        Inl e \<Rightarrow> Inl e
      | Inr None \<Rightarrow> Inr chaser
      | Inr (Some (nearest_player, min_distance)) \<Rightarrow>
          if nearest_player = [] then Inr chaser
          else if min_distance < 128 then Inr chaser
          else
            (case num_field nearest_player ''x'' of
               Inl e \<Rightarrow> Inl e
             | Inr px \<Rightarrow>
                 (case num_field nearest_player ''y'' of
                    Inl e \<Rightarrow> Inl e
                  | Inr py \<Rightarrow>
                      (let dx = px - c_x chaser;
                           dy = py - c_y chaser;
                           distance = sqrt (dx\<^sup>2 + dy\<^sup>2)
                       in if distance > 0 then
                            Inr (chaser\<lparr>c_x := c_x chaser + dx / distance * c_speed chaser,
                                         c_y := c_y chaser + dy / distance * c_speed chaser,
                                         c_angle := degrees (atan2 (dy / distance) (dx / distance))\<rparr>)
                          else Inr chaser))))"

text \<open>
  The chasers are moved in place, one after the other: when the body raises at the chaser
  of index \<open>i\<close>, the chasers before it have moved.
\<close>

definition move_chaser :: "nat \<Rightarrow> server \<Rightarrow> outcome" where
  "move_chaser i s =
     (case update_chaser (map snd (players s)) (chasers s ! i) of
        Inl e \<Rightarrow> Inl (e, s)
      | Inr chaser \<Rightarrow> Inr (s\<lparr>chasers := (chasers s)[i := chaser]\<rparr>))"

definition update_chasers :: "server \<Rightarrow> outcome" where
  "update_chasers s =
     (if players s = [] then Inr s
      else for_each move_chaser [0..<length (chasers s)] s)"

definition get_bullet_spawn_interval :: "difficulty \<Rightarrow> real" where
  "get_bullet_spawn_interval d = (if d = EASY then 3.0 else if d = MEDIUM then 2.0 else 1.0)"

definition get_bullet_speed :: "difficulty \<Rightarrow> real" where
  "get_bullet_speed d = (if d = EASY then 3.0 else if d = MEDIUM then 5.0 else 7.0)"

text \<open>The body of \<^verbatim>\<open>for chaser in self.chasers\<close> in \<^verbatim>\<open>spawn_bullets\<close>: the bullet, if one is fired.\<close>

definition chaser_shot :: "difficulty \<Rightarrow> pdict list \<Rightarrow> chaser \<Rightarrow> exn + bullet list" where
  "chaser_shot d all_players chaser =
     (if all_players = [] then Inr []
      else
        (case find_nearest all_players (c_x chaser) (c_y chaser) None of
           Inl e \<Rightarrow> Inl e
         | Inr None \<Rightarrow> Inr []
         | Inr (Some (nearest_player, min_distance)) \<Rightarrow>
             if nearest_player \<noteq> [] \<and> min_distance < 400 then
               (if min_distance < 128 then Inr []
                else
                  (case num_field nearest_player ''x'' of
                     Inl e \<Rightarrow> Inl e
                   | Inr px \<Rightarrow>
                       (case num_field nearest_player ''y'' of
                          Inl e \<Rightarrow> Inl e
                        | Inr py \<Rightarrow>
                            (let dx = px - c_x chaser;
                                 dy = py - c_y chaser;
                                 distance = sqrt (dx\<^sup>2 + dy\<^sup>2)
                             in if distance > 0 then
                                  Inr [\<lparr>b_x = c_x chaser, b_y = c_y chaser,
                                        b_dx = dx / distance * get_bullet_speed d,
                                        b_dy = dy / distance * get_bullet_speed d\<rparr>]
                                else Inr []))))
             else Inr []))"

definition fire :: "chaser \<Rightarrow> server \<Rightarrow> outcome" where
  "fire chaser s =
     (case chaser_shot (difficulty s) (map snd (players s)) chaser of
        Inl e \<Rightarrow> Inl (e, s)
      | Inr shots \<Rightarrow> Inr (s\<lparr>bullets := bullets s @ shots\<rparr>))"

text \<open>
  \<^verbatim>\<open>spawn_bullets\<close>. When the body raises, the bullets of the chasers before are in the
  list and \<^verbatim>\<open>last_bullet_time\<close> keeps its old value.
\<close>

definition spawn_bullets :: "server \<Rightarrow> outcome" where
  "spawn_bullets s =
     (let current_time = game_time s;
          spawn_interval = get_bullet_spawn_interval (difficulty s);
          last = (case last_bullet_time s of None \<Rightarrow> 0 | Some l \<Rightarrow> l);
          s0 = s\<lparr>last_bullet_time := Some last\<rparr>
      in if current_time - last \<ge> spawn_interval then
           (case for_each fire (chasers s0) s0 of
              Inl raised \<Rightarrow> Inl raised
            | Inr s1 \<Rightarrow> Inr (s1\<lparr>last_bullet_time := Some current_time\<rparr>))
         else Inr s0)"

text \<open>
  \<^verbatim>\<open>update_bullets\<close>. A bullet is one object in \<^verbatim>\<open>self.bullets\<close> and in the copy the loop
  runs over, so \<^verbatim>\<open>self.bullets\<close> holds the moved bullets; \<^verbatim>\<open>remove\<close> takes out the first
  element equal to its argument.
\<close>

definition off_screen :: "bullet \<Rightarrow> bool" where
  "off_screen b \<longleftrightarrow> b_x b < 0 \<or> b_x b > 800 \<or> b_y b < 0 \<or> b_y b > 600"

definition update_bullets :: "server \<Rightarrow> server" where
  "update_bullets s =
     (let moved = map (\<lambda>b. b\<lparr>b_x := b_x b + b_dx b, b_y := b_y b + b_dy b\<rparr>) (bullets s)
      in s\<lparr>bullets := fold (\<lambda>b bs. if off_screen b then remove1 b bs else bs) moved moved\<rparr>)"

subsection \<open>Collisions\<close>

definition broadcast_player_respawn :: "client_id \<Rightarrow> server \<Rightarrow> outcome" where
  "broadcast_player_respawn player_id s =
     (case map_of (players s) player_id of
        None \<Rightarrow> Inl (KeyError, s)
      | Some player \<Rightarrow> Inr (broadcast_to_all (PlayerRespawned player_id player) s))"

definition handle_player_death :: "client_id \<Rightarrow> server \<Rightarrow> outcome" where
  "handle_player_death player_id s =
     (case map_of (players s) player_id of
        None \<Rightarrow> Inl (KeyError, s)
      | Some player \<Rightarrow>
          broadcast_player_respawn player_id
            (s\<lparr>players := AList.update player_id
                  (AList.update ''health'' (JNum 6)
                    (AList.update ''y'' (JNum 300)
                      (AList.update ''x'' (JNum 400) player)))
                  (players s)\<rparr>))"

text \<open>The scan \<^verbatim>\<open>for bullet in self.bullets[:]\<close> up to the first bullet nearer than 20.\<close>

fun first_bullet_hit :: "pdict \<Rightarrow> bullet list \<Rightarrow> exn + bullet option" where
  "first_bullet_hit player [] = Inr None"
| "first_bullet_hit player (bullet # rest) =
     (case player_distance player (b_x bullet) (b_y bullet) of
        Inl e \<Rightarrow> Inl e
      | Inr distance \<Rightarrow> if distance < 20 then Inr (Some bullet) else first_bullet_hit player rest)"

text \<open>
  The damage of a hit on a player without immunity; \<open>current_time\<close> is \<^verbatim>\<open>time.time()\<close>.
  \<^verbatim>\<open>damage_cooldown_duration\<close> is 1.0. The statement \<^verbatim>\<open>player['health'] -= 1\<close> is the
  first that can raise and the first that writes.
\<close>

definition apply_damage :: "real \<Rightarrow> client_id \<Rightarrow> pdict \<Rightarrow> server \<Rightarrow> outcome" where
  "apply_damage current_time player_id player s =
     (let last_damage_time =
            (case map_of (player_damage_cooldowns s) player_id of None \<Rightarrow> 0 | Some l \<Rightarrow> l)
      in if current_time - last_damage_time \<ge> 1.0 then
           (case num_field player ''health'' of
              Inl e \<Rightarrow> Inl (e, s)
            | Inr health \<Rightarrow>
                (let s1 = s\<lparr>players := AList.update player_id
                               (AList.update ''health'' (JNum (health - 1)) player) (players s),
                            player_damage_cooldowns :=
                              AList.update player_id current_time (player_damage_cooldowns s)\<rparr>
                 in if health - 1 \<le> 0 then
                      handle_player_death player_id
                        (s1\<lparr>players := AList.update player_id
                               (AList.update ''health'' (JNum 0) player) (players s)\<rparr>)
                    else Inr s1))
         else Inr s)"

text \<open>
  The body of the first loop of \<^verbatim>\<open>check_collisions\<close> for one player. The clock is read at
  most once in it, since the scan ends at the first hit: \<open>hit_now player_id\<close> is that
  reading.
\<close>

definition bullet_turn :: "(client_id \<Rightarrow> real) \<Rightarrow> client_id \<Rightarrow> server \<Rightarrow> outcome" where
  "bullet_turn hit_now player_id s =
     (case map_of (players s) player_id of
        None \<Rightarrow> Inr s
      | Some player \<Rightarrow>
          (case first_bullet_hit player (bullets s) of
             Inl e \<Rightarrow> Inl (e, s)
           | Inr None \<Rightarrow> Inr s
           | Inr (Some bullet) \<Rightarrow>
               (case (if \<not> flag player ''immunity_boost_active''
                      then apply_damage (hit_now player_id) player_id player s
                      else Inr s) of
                  Inl raised \<Rightarrow> Inl raised
                | Inr s1 \<Rightarrow> Inr (s1\<lparr>bullets := remove1 bullet (bullets s1)\<rparr>))))"

text \<open>The scan \<^verbatim>\<open>for chaser in self.chasers[:]\<close> up to the first chaser nearer than 80.\<close>

fun first_chaser_hit :: "pdict \<Rightarrow> chaser list \<Rightarrow> exn + chaser option" where
  "first_chaser_hit player [] = Inr None"
| "first_chaser_hit player (chaser # rest) =
     (case player_distance player (c_x chaser) (c_y chaser) of
        Inl e \<Rightarrow> Inl e
      | Inr distance \<Rightarrow> if distance < 80 then Inr (Some chaser) else first_chaser_hit player rest)"

text \<open>
  The body of the second loop of \<^verbatim>\<open>check_collisions\<close> for one player;
  \<^verbatim>\<open>chaser_respawn_delay\<close> is 2.0. The respawn is scheduled and the chaser removed before
  \<^verbatim>\<open>player['score'] += 5\<close> is evaluated: when that statement raises, both have happened,
  and neither score has grown nor is the flag cleared.
\<close>

definition sword_turn :: "client_id \<Rightarrow> server \<Rightarrow> outcome" where
  "sword_turn player_id s =
     (case map_of (players s) player_id of
        None \<Rightarrow> Inr s
      | Some player \<Rightarrow>
          if flag player ''sword_attacking'' then
            (case first_chaser_hit player (chasers s) of
               Inl e \<Rightarrow> Inl (e, s)
             | Inr None \<Rightarrow> Inr s
             | Inr (Some chaser) \<Rightarrow>
                 (let s1 = s\<lparr>chaser_respawn_times :=
                               AList.update (c_id chaser) (game_time s + 2.0) (chaser_respawn_times s),
                             chasers := remove1 chaser (chasers s)\<rparr>
                  in case num_field player ''score'' of
                       Inl e \<Rightarrow> Inl (e, s1)
                     | Inr score \<Rightarrow>
                         Inr (s1\<lparr>players := AList.update player_id
                                    (AList.update ''sword_attacking'' (JBool False)
                                      (AList.update ''score'' (JNum (score + 5)) player))
                                    (players s),
                                  global_score := global_score s + 5\<rparr>)))
          else Inr s)"

definition bullet_pass :: "(client_id \<Rightarrow> real) \<Rightarrow> server \<Rightarrow> outcome" where
  "bullet_pass hit_now s = for_each (bullet_turn hit_now) (map fst (players s)) s"

definition sword_pass :: "server \<Rightarrow> outcome" where
  "sword_pass s = for_each sword_turn (map fst (players s)) s"

definition check_collisions :: "(client_id \<Rightarrow> real) \<Rightarrow> server \<Rightarrow> outcome" where
  "check_collisions hit_now s =
     (case bullet_pass hit_now s of Inl raised \<Rightarrow> Inl raised | Inr s1 \<Rightarrow> sword_pass s1)"

subsection \<open>Spawns, respawns and scores\<close>

definition spawn_powerups :: "real \<Rightarrow> powerup \<Rightarrow> server \<Rightarrow> server" where
  "spawn_powerups roll drawn s = (if roll < 0.001 then s\<lparr>powerups := powerups s @ [drawn]\<rparr> else s)"

fun respawn_due :: "(nat \<times> real) list \<Rightarrow> (int \<times> int) stream \<Rightarrow> server \<Rightarrow> server" where
  "respawn_due [] draws s = s"
| "respawn_due ((chaser_id, respawn_time) # rest) draws s =
     (if game_time s \<ge> respawn_time then
        (let (s', draws') = spawn_single_chaser chaser_id draws s
         in respawn_due rest draws' (s'\<lparr>chaser_respawn_times := AList.delete chaser_id (chaser_respawn_times s')\<rparr>))
      else respawn_due rest draws s)"

text \<open>
  \<^verbatim>\<open>update_chaser_respawns\<close>. The source deletes the respawned ids after its loop over a
  copy of the schedule; nothing reads the schedule in between, so deleting each id at once
  gives the same state.
\<close>

definition update_chaser_respawns :: "(int \<times> int) stream \<Rightarrow> server \<Rightarrow> server" where
  "update_chaser_respawns draws s = respawn_due (chaser_respawn_times s) draws s"

text \<open>
  The body of the loop over the players in \<^verbatim>\<open>update_game_state\<close>. The entry of the player
  in \<^verbatim>\<open>player_score_times\<close> exists before \<^verbatim>\<open>player['score'] += 1\<close> is evaluated.
\<close>

definition score_turn :: "client_id \<Rightarrow> server \<Rightarrow> outcome" where
  "score_turn player_id s =
     (case map_of (players s) player_id of
        None \<Rightarrow> Inr s
      | Some player \<Rightarrow>
          (let times0 = (case player_score_times s of None \<Rightarrow> [] | Some ts \<Rightarrow> ts);
               times1 = (case map_of times0 player_id of
                           None \<Rightarrow> AList.update player_id (game_time s) times0
                         | Some _ \<Rightarrow> times0);
               s1 = s\<lparr>player_score_times := Some times1\<rparr>
           in case map_of times1 player_id of
                None \<Rightarrow> Inl (KeyError, s1)
              | Some since \<Rightarrow>
                  if game_time s - since \<ge> 10 then
                    (case num_field player ''score'' of
                       Inl e \<Rightarrow> Inl (e, s1)
                     | Inr score \<Rightarrow>
                         Inr (s\<lparr>players := AList.update player_id
                                   (AList.update ''score'' (JNum (score + 1)) player) (players s),
                                 player_score_times :=
                                   Some (AList.update player_id (game_time s) times1)\<rparr>))
                  else Inr s1))"

text \<open>The last statement of \<^verbatim>\<open>update_game_state\<close>; \<^verbatim>\<open>global_score_interval\<close> is 10.\<close>

definition accrue_global_score :: "server \<Rightarrow> server" where
  "accrue_global_score s =
     (if game_time s - last_global_score_time s \<ge> 10
      then s\<lparr>global_score := global_score s + 1, last_global_score_time := game_time s\<rparr>
      else s)"

definition update_game_state :: "tick_env \<Rightarrow> server \<Rightarrow> outcome" where
  "update_game_state env s =
     (case update_chasers s of
        Inl raised \<Rightarrow> Inl raised
      | Inr s1 \<Rightarrow>
          (case spawn_bullets s1 of
             Inl raised \<Rightarrow> Inl raised
           | Inr s2 \<Rightarrow>
               (case check_collisions (env_hit_now env) (update_bullets s2) of
                  Inl raised \<Rightarrow> Inl raised
                | Inr s3 \<Rightarrow>
                    (let s4 = spawn_powerups (env_roll env) (env_powerup env) s3;
                         s5 = update_chaser_respawns (env_draws env) s4
                     in case for_each score_turn (map fst (players s5)) s5 of
                          Inl raised \<Rightarrow> Inl raised
                        | Inr s6 \<Rightarrow> Inr (accrue_global_score s6)))))"

text \<open>
  One pass of the loop of \<^verbatim>\<open>game_loop\<close>. Nothing catches an exception here: \<open>Inl\<close> is
  the end of the thread, with the state it leaves to the other threads.
\<close>

definition game_loop :: "tick_env \<Rightarrow> server \<Rightarrow> outcome" where
  "game_loop env s =
     (let current_time = env_now env;
          dt = current_time - last_update s;
          s1 = check_client_timeouts (env_sweep_now env) s
      in case (if game_state s1 = PLAYING
               then update_game_state env (s1\<lparr>game_time := game_time s1 + dt\<rparr>)
               else Inr s1) of
           Inl raised \<Rightarrow> Inl raised
         | Inr s2 \<Rightarrow> Inr (s2\<lparr>last_update := current_time\<rparr>))"

text \<open>One pass of the loop of \<^verbatim>\<open>broadcast_loop\<close>.\<close>

definition broadcast_loop :: "server \<Rightarrow> server" where
  "broadcast_loop s =
     (if clients s \<noteq> [] then
        broadcast_to_all
          (GameStateMsg (phase_value (game_state s)) (map snd (players s)) (chasers s) (bullets s)
             (powerups s) (game_time s) (difficulty_value (difficulty s)) (global_score s)) s
      else s)"

section \<open>Notions used in the statements\<close>






section \<open>Example states\<close>

text \<open>Concrete states and connections at which the theorems below are instantiated.\<close>

definition example_sock :: sock where
  "example_sock = \<lparr>send_fails = False, wire = [], sock_closed = False\<rparr>"

definition example_two_clients :: server where
  "example_two_clients =
     (initial_server 2 ''Stalked Game Server'' MEDIUM 0)
       \<lparr>clients := [(1, \<lparr>socket = example_sock, address = ''a'', is_connected = True, last_heartbeat = 0\<rparr>),
                    (2, \<lparr>socket = example_sock, address = ''b'', is_connected = True, last_heartbeat = 0\<rparr>)],
        players := [(1, new_player 1), (2, new_player 2)]\<rparr>"

definition example_broken_sock :: sock where
  "example_broken_sock = \<lparr>send_fails = True, wire = [], sock_closed = False\<rparr>"

definition example_one_broken :: server where
  "example_one_broken =
     (initial_server 2 ''Stalked Game Server'' MEDIUM 0)
       \<lparr>clients := [(1, \<lparr>socket = example_broken_sock, address = ''a'', is_connected = True, last_heartbeat = 0\<rparr>),
                    (2, \<lparr>socket = example_sock, address = ''b'', is_connected = True, last_heartbeat = 0\<rparr>)],
        players := [(1, new_player 1), (2, new_player 2)]\<rparr>"

text \<open>A decoder that knows one line, and the lines used below.\<close>

definition decodes :: "unicode \<Rightarrow> jval \<Rightarrow> unicode \<Rightarrow> decoded" where
  "decodes known v line = (if line = known then Decoded v else JSONDecodeError)"

definition quoted :: "string \<Rightarrow> string" where
  "quoted str = CHR 0x22 # str @ [CHR 0x22]"

definition info_request_line :: string where
  "info_request_line = ''{'' @ quoted ''type'' @ '': '' @ quoted ''info_request'' @ ''}''"








text \<open>A pass of the game loop at time 0, with no power-up drawn.\<close>

definition example_env :: tick_env where
  "example_env =
     \<lparr>env_now = 0, env_sweep_now = 0, env_hit_now = (\<lambda>player_id. 0), env_draws = sconst (0, 0),
      env_roll = 1, env_powerup = \<lparr>p_type = Health, p_x = 0, p_y = 0\<rparr>\<rparr>"





section \<open>Properties\<close>

lemma map_fst_map_entry: "map fst (AList.map_entry k f xs) = map fst xs"
  by (induction xs) auto

lemma broadcast_pass_shape:
  "\<exists>cl' out. broadcast_pass cl m s dis = (s\<lparr>clients := cl', console := console s @ out\<rparr>, dis)
      \<and> map fst cl' = map fst (clients s)"
proof (induction cl arbitrary: s)
  case Nil
  have "s = s\<lparr>clients := clients s, console := console s @ []\<rparr>" by simp
  then show ?case by (metis broadcast_pass.simps(1))
next
  case (Cons a cl)
  obtain cid info where a: "a = (cid, info)" by (cases a)
  obtain sk' out where st: "send_to_client (socket info) m = Inr (sk', out)"
    by (cases "socket_send (socket info) m") (auto simp: send_to_client_def)
  let ?s1 = "(set_socket cid sk' s)\<lparr>console := console s @ out\<rparr>"
  from Cons.IH[of ?s1] obtain cl' out' where
    r: "broadcast_pass cl m ?s1 dis = (?s1\<lparr>clients := cl', console := console ?s1 @ out'\<rparr>, dis)"
    and k: "map fst cl' = map fst (clients ?s1)" by blast
  have "broadcast_pass (a # cl) m s dis = (s\<lparr>clients := cl', console := console s @ (out @ out')\<rparr>, dis)"
    using r by (simp add: a st set_socket_def)
  moreover have "map fst cl' = map fst (clients s)"
    using k by (simp add: set_socket_def map_fst_map_entry)
  ultimately show ?case by blast
qed

lemma broadcast_to_all_eq:
  "broadcast_to_all m s = fst (broadcast_pass (clients s) m (s\<lparr>broadcast_log := broadcast_log s @ [m]\<rparr>) [])"
proof -
  obtain cl' out where "broadcast_pass (clients s) m (s\<lparr>broadcast_log := broadcast_log s @ [m]\<rparr>) [] = (s\<lparr>broadcast_log := broadcast_log s @ [m]\<rparr>\<lparr>clients := cl', console := console (s\<lparr>broadcast_log := broadcast_log s @ [m]\<rparr>) @ out\<rparr>, [])"
    using broadcast_pass_shape by blast
  then show ?thesis by (simp add: Let_def)
qed

declare lowest_free_id.simps [simp del]
declare broadcast_to_all.simps [simp del]
declare disconnect_client.simps [simp del]

lemma lowest_free_id_spec:
  "c \<le> lowest_free_id u c \<and> lowest_free_id u c \<notin> set u
     \<and> (\<forall>k. c \<le> k \<and> k < lowest_free_id u c \<longrightarrow> k \<in> set u)"
proof (induction u c rule: lowest_free_id.induct)
  case (1 used_ids client_id)
  show ?case
  proof (cases "client_id \<in> set used_ids")
    case True
    with "1" have ih: "client_id + 1 \<le> lowest_free_id used_ids (client_id + 1)"
      "lowest_free_id used_ids (client_id + 1) \<notin> set used_ids"
      "\<forall>k. client_id + 1 \<le> k \<and> k < lowest_free_id used_ids (client_id + 1) \<longrightarrow> k \<in> set used_ids"
      by blast+
    have eq: "lowest_free_id used_ids client_id = lowest_free_id used_ids (client_id + 1)"
      using True by (subst lowest_free_id.simps) simp
    show ?thesis
      unfolding eq using ih True
      by (metis Suc_eq_plus1 Suc_leD le_antisym not_less_eq_eq)
  next
    case False
    then have "lowest_free_id used_ids client_id = client_id"
      by (subst lowest_free_id.simps) simp
    with False show ?thesis by auto
  qed
qed

lemma lowest_free_id_least:
  assumes "c \<le> k" "k \<notin> set u" "\<forall>j. c \<le> j \<and> j < k \<longrightarrow> j \<in> set u"
  shows "lowest_free_id u c = k"
proof -
  let ?r = "lowest_free_id u c"
  from lowest_free_id_spec[of c u]
  have a: "c \<le> ?r" "?r \<notin> set u" "\<forall>j. c \<le> j \<and> j < ?r \<longrightarrow> j \<in> set u" by blast+
  have "\<not> ?r < k" using assms a by blast
  moreover have "\<not> k < ?r" using assms a by blast
  ultimately show ?thesis by simp
qed

lemma broadcast_to_all_shape:
  "\<exists>cl' out. broadcast_to_all m s =
       s\<lparr>clients := cl', console := console s @ out, broadcast_log := broadcast_log s @ [m]\<rparr>
     \<and> map fst cl' = map fst (clients s)"
proof -
  let ?s0 = "s\<lparr>broadcast_log := broadcast_log s @ [m]\<rparr>"
  obtain cl' out where
    r: "broadcast_pass (clients s) m ?s0 [] = (?s0\<lparr>clients := cl', console := console ?s0 @ out\<rparr>, [])"
    and k: "map fst cl' = map fst (clients ?s0)"
    using broadcast_pass_shape[of "clients s" m ?s0 "[]"] by auto
  have "broadcast_to_all m s = ?s0\<lparr>clients := cl', console := console ?s0 @ out\<rparr>"
    using r by (simp add: broadcast_to_all_eq)
  then show ?thesis using k
    by (intro exI[of _ cl'] exI[of _ out]) simp
qed

lemma map_fst_delete: "map fst (AList.delete k xs) = filter (\<lambda>j. j \<noteq> k) (map fst xs)"
  by (induction xs) auto

lemma disconnect_client_shape:
  "\<exists>cl' out. disconnect_client cid s =
       s\<lparr>clients := cl', players := AList.delete cid (players s), console := console s @ out,
         broadcast_log := broadcast_log s @ [PlayerLeft cid]\<rparr>
     \<and> map fst cl' = filter (\<lambda>j. j \<noteq> cid) (map fst (clients s))"
proof -
  let ?s1 = "close_and_forget cid s"
  obtain cl' out where
    b: "broadcast_to_all (PlayerLeft cid) ?s1 =
          ?s1\<lparr>clients := cl', console := console ?s1 @ out, broadcast_log := broadcast_log ?s1 @ [PlayerLeft cid]\<rparr>"
    and k: "map fst cl' = map fst (clients ?s1)"
    using broadcast_to_all_shape by blast
  have "disconnect_client cid s =
       s\<lparr>clients := cl', players := AList.delete cid (players s),
         console := console s @ (out @ [ClientDisconnected cid, PlayersOnline (length cl')]),
         broadcast_log := broadcast_log s @ [PlayerLeft cid]\<rparr>"
    apply (simp only: disconnect_client.simps Let_def b)
    apply (simp add: print_players_online_def close_and_forget_def)
    done
  moreover have "map fst cl' = filter (\<lambda>j. j \<noteq> cid) (map fst (clients s))"
    using k by (simp add: close_and_forget_def map_fst_delete)
  ultimately show ?thesis
    by (intro exI[of _ cl'] exI[of _ "out @ [ClientDisconnected cid, PlayersOnline (length cl')]"]) simp
qed

lemma send_to_client_Inr:
  "send_to_client sk m =
     Inr (if send_fails sk \<or> sock_closed sk then (sk, [ErrorSending OSError])
          else (sk\<lparr>wire := wire sk @ [m]\<rparr>, []))"
  by (simp add: send_to_client_def socket_send_def)

lemma accept_connection_full:
  assumes "server_full s"
  shows "accept_connection sk a now s =
     (Rejected ((if send_fails sk \<or> sock_closed sk then sk
                 else sk\<lparr>wire := wire sk @ [ConnectionRejected ''Server is full'']\<rparr>)\<lparr>sock_closed := True\<rparr>),
      s\<lparr>console := console s @ (if send_fails sk \<or> sock_closed sk then [ErrorSending OSError] else [])\<rparr>)"
  using assms by (simp add: accept_connection_def send_to_client_Inr)

lemma broadcast_to_all_frame [simp]:
  "players (broadcast_to_all m s) = players s"
  "map fst (clients (broadcast_to_all m s)) = map fst (clients s)"
  "length (clients (broadcast_to_all m s)) = length (clients s)"
  "broadcast_log (broadcast_to_all m s) = broadcast_log s @ [m]"
  "max_players (broadcast_to_all m s) = max_players s"
  "server_description (broadcast_to_all m s) = server_description s"
  "difficulty (broadcast_to_all m s) = difficulty s"
  "game_state (broadcast_to_all m s) = game_state s"
  "running (broadcast_to_all m s) = running s"
  "auto_started (broadcast_to_all m s) = auto_started s"
  "chasers (broadcast_to_all m s) = chasers s"
  "bullets (broadcast_to_all m s) = bullets s"
  "powerups (broadcast_to_all m s) = powerups s"
  "game_time (broadcast_to_all m s) = game_time s"
  "last_update (broadcast_to_all m s) = last_update s"
  "global_score (broadcast_to_all m s) = global_score s"
  "last_global_score_time (broadcast_to_all m s) = last_global_score_time s"
  "player_damage_cooldowns (broadcast_to_all m s) = player_damage_cooldowns s"
  "chaser_respawn_times (broadcast_to_all m s) = chaser_respawn_times s"
  "player_score_times (broadcast_to_all m s) = player_score_times s"
  "last_bullet_time (broadcast_to_all m s) = last_bullet_time s"
  using broadcast_to_all_shape[of m s] by (auto dest: arg_cong[where f=length])

lemma accept_connection_free:
  assumes "\<not> server_full s"
  shows "\<exists>s'. accept_connection sk a now s = (Accepted (lowest_free_id (map fst (clients s)) 1), s')
     \<and> map fst (clients s') = map fst (clients s) @ [lowest_free_id (map fst (clients s)) 1]
     \<and> map_of (players s') (lowest_free_id (map fst (clients s)) 1)
          = Some (new_player (lowest_free_id (map fst (clients s)) 1))"
proof -
  have fresh: "lowest_free_id (map fst (clients s)) 1 \<notin> fst ` set (clients s)"
    using lowest_free_id_spec[of 1 "map fst (clients s)"] by simp
  show ?thesis
    using assms fresh
    by (simp add: accept_connection_def Let_def send_to_client_Inr broadcast_player_joined_def
        set_socket_def update_conv' print_players_online_def map_fst_map_entry update_keys)
qed

text \<open>
  Claim C4. An accepted connection gets the smallest positive integer that no active
  session holds, the session and its player are created under it, and so an id freed by
  a disconnect is handed out again when it is the smallest free one. When the number of
  sessions has reached a nonzero capacity, no session is created: the connection is
  closed, after \<^verbatim>\<open>connection_rejected\<close> was written to it if it can still be written to.
\<close>

theorem accept_allocates_smallest_free_id:
  "(\<not> server_full s \<longrightarrow>
      (\<exists>s'. accept_connection sk a now s = (Accepted (lowest_free_id (map fst (clients s)) 1), s')
          \<and> map fst (clients s') = map fst (clients s) @ [lowest_free_id (map fst (clients s)) 1]
          \<and> map_of (players s') (lowest_free_id (map fst (clients s)) 1)
               = Some (new_player (lowest_free_id (map fst (clients s)) 1)))
      \<and> 1 \<le> lowest_free_id (map fst (clients s)) 1
      \<and> lowest_free_id (map fst (clients s)) 1 \<notin> set (map fst (clients s))
      \<and> (\<forall>j. 1 \<le> j \<and> j < lowest_free_id (map fst (clients s)) 1 \<longrightarrow> j \<in> set (map fst (clients s))))
   \<and> (server_full s \<longrightarrow>
      (\<exists>sk' s'. accept_connection sk a now s = (Rejected sk', s')
          \<and> clients s' = clients s \<and> players s' = players s \<and> sock_closed sk'
          \<and> (\<not> send_fails sk \<and> \<not> sock_closed sk \<longrightarrow>
                wire sk' = wire sk @ [ConnectionRejected ''Server is full''])))
   \<and> (1 \<le> k \<and> k \<in> set (map fst (clients s))
        \<and> (\<forall>j. 1 \<le> j \<and> j < k \<longrightarrow> j \<in> set (map fst (clients s)))
        \<and> \<not> server_full (disconnect_client k s) \<longrightarrow>
      fst (accept_connection sk a now (disconnect_client k s)) = Accepted k)"
proof (intro conjI impI)
  assume "\<not> server_full s"
  then show "\<exists>s'. accept_connection sk a now s = (Accepted (lowest_free_id (map fst (clients s)) 1), s')
          \<and> map fst (clients s') = map fst (clients s) @ [lowest_free_id (map fst (clients s)) 1]
          \<and> map_of (players s') (lowest_free_id (map fst (clients s)) 1)
               = Some (new_player (lowest_free_id (map fst (clients s)) 1))"
    by (rule accept_connection_free)
next
  show "1 \<le> lowest_free_id (map fst (clients s)) 1"
    using lowest_free_id_spec[of 1 "map fst (clients s)"] by blast
next
  show "lowest_free_id (map fst (clients s)) 1 \<notin> set (map fst (clients s))"
    using lowest_free_id_spec[of 1 "map fst (clients s)"] by blast
next
  show "\<forall>j. 1 \<le> j \<and> j < lowest_free_id (map fst (clients s)) 1 \<longrightarrow> j \<in> set (map fst (clients s))"
    using lowest_free_id_spec[of 1 "map fst (clients s)"] by blast
next
  assume "server_full s"
  then show "\<exists>sk' s'. accept_connection sk a now s = (Rejected sk', s')
          \<and> clients s' = clients s \<and> players s' = players s \<and> sock_closed sk'
          \<and> (\<not> send_fails sk \<and> \<not> sock_closed sk \<longrightarrow>
                wire sk' = wire sk @ [ConnectionRejected ''Server is full''])"
    by (simp add: accept_connection_full)
next
  assume h: "1 \<le> k \<and> k \<in> set (map fst (clients s))
        \<and> (\<forall>j. 1 \<le> j \<and> j < k \<longrightarrow> j \<in> set (map fst (clients s)))
        \<and> \<not> server_full (disconnect_client k s)"
  obtain cl' out where
    d: "disconnect_client k s =
       s\<lparr>clients := cl', players := AList.delete k (players s), console := console s @ out,
         broadcast_log := broadcast_log s @ [PlayerLeft k]\<rparr>"
    and keys: "map fst cl' = filter (\<lambda>j. j \<noteq> k) (map fst (clients s))"
    using disconnect_client_shape by blast
  have keys': "map fst (clients (disconnect_client k s)) = filter (\<lambda>j. j \<noteq> k) (map fst (clients s))"
    using keys by (simp add: d)
  have "lowest_free_id (map fst (clients (disconnect_client k s))) 1 = k"
  proof (rule lowest_free_id_least)
    show "1 \<le> k" using h by simp
    show "k \<notin> set (map fst (clients (disconnect_client k s)))"
      unfolding keys' by simp
    show "\<forall>j. 1 \<le> j \<and> j < k \<longrightarrow> j \<in> set (map fst (clients (disconnect_client k s)))"
      unfolding keys' using h by auto
  qed
  moreover from h have "\<not> server_full (disconnect_client k s)" by simp
  ultimately show "fst (accept_connection sk a now (disconnect_client k s)) = Accepted k"
    using accept_connection_free[of "disconnect_client k s" sk a now] by auto
qed

lemma disconnect_client_keys:
  "map fst (clients (disconnect_client k s)) = filter (\<lambda>j. j \<noteq> k) (map fst (clients s))"
  using disconnect_client_shape[of k s] by auto

lemma server_full_disconnect:
  "server_full (disconnect_client k s) \<longleftrightarrow>
     int (length (filter (\<lambda>j. j \<noteq> k) (map fst (clients s)))) \<ge> max_players s \<and> max_players s \<noteq> 0"
proof -
  have "length (clients (disconnect_client k s)) = length (filter (\<lambda>j. j \<noteq> k) (map fst (clients s)))"
    using disconnect_client_keys[of k s] by (metis length_map)
  moreover have "max_players (disconnect_client k s) = max_players s"
    using disconnect_client_shape[of k s] by auto
  ultimately show ?thesis by (simp add: server_full_def)
qed

theorem accept_allocates_smallest_free_id_witness:
  "\<not> server_full (initial_server 2 ''Stalked Game Server'' MEDIUM 0)
   \<and> fst (accept_connection example_sock ''c'' 0 (initial_server 2 ''Stalked Game Server'' MEDIUM 0))
       = Accepted 1
   \<and> server_full example_two_clients
   \<and> (\<exists>sk'. fst (accept_connection example_sock ''c'' 0 example_two_clients) = Rejected sk'
         \<and> wire sk' = [ConnectionRejected ''Server is full''])
   \<and> \<not> server_full (disconnect_client 1 example_two_clients)
   \<and> fst (accept_connection example_sock ''c'' 0 (disconnect_client 1 example_two_clients)) = Accepted 1"
proof -
  have a: "\<not> server_full (initial_server 2 ''Stalked Game Server'' MEDIUM 0)"
    by (simp add: server_full_def initial_server_def)
  have b: "server_full example_two_clients"
    by (simp add: server_full_def example_two_clients_def initial_server_def)
  have c: "\<not> server_full (disconnect_client 1 example_two_clients)"
    by (simp add: server_full_disconnect example_two_clients_def initial_server_def)
  have l: "lowest_free_id (map fst (clients (initial_server 2 ''Stalked Game Server'' MEDIUM 0))) 1 = 1"
    by (simp add: initial_server_def lowest_free_id.simps)
  have k: "(1::nat) \<le> 1 \<and> 1 \<in> set (map fst (clients example_two_clients))
      \<and> (\<forall>j. 1 \<le> j \<and> j < 1 \<longrightarrow> j \<in> set (map fst (clients example_two_clients)))"
    by (simp add: example_two_clients_def)
  from accept_allocates_smallest_free_id[of "initial_server 2 ''Stalked Game Server'' MEDIUM 0"
      example_sock "''c''" 0 1] a l
  have 1: "fst (accept_connection example_sock ''c'' 0 (initial_server 2 ''Stalked Game Server'' MEDIUM 0))
       = Accepted 1"
    by auto
  from accept_allocates_smallest_free_id[of example_two_clients example_sock "''c''" 0 1] b
  have 2: "\<exists>sk'. fst (accept_connection example_sock ''c'' 0 example_two_clients) = Rejected sk'
         \<and> wire sk' = [ConnectionRejected ''Server is full'']"
    by (auto simp: example_sock_def)
  from accept_allocates_smallest_free_id[of example_two_clients example_sock "''c''" 0 1] c k
  have 3: "fst (accept_connection example_sock ''c'' 0 (disconnect_client 1 example_two_clients)) = Accepted 1"
    by blast
  from a b c 1 2 3 show ?thesis by blast
qed


declare process_buffer.simps [simp del]

lemma process_buffer_line:
  assumes "10 \<notin> set line"
  shows "process_buffer j now dr cid (line @ 10 # rest) s =
     (case handle_line j now dr cid line s of
        Inl e \<Rightarrow> Inl (e, s)
      | Inr s' \<Rightarrow> process_buffer j now dr cid rest s')"
proof -
  have t: "takeWhile (\<lambda>c. c \<noteq> 10) (line @ 10 # rest) = line"
    using assms by (induction line) auto
  have d: "dropWhile (\<lambda>c. c \<noteq> 10) (line @ 10 # rest) = 10 # rest"
    using assms by (induction line) auto
  show ?thesis
    by (subst process_buffer.simps) (simp add: t d split: sum.splits)
qed

lemma process_buffer_rest:
  assumes "10 \<notin> set rest"
  shows "process_buffer j now dr cid rest s = Inr (rest, s)"
  using assms by (subst process_buffer.simps) simp

lemma process_buffer_one_line:
  assumes "10 \<notin> set line"
  shows "process_buffer j now dr cid (line @ [10]) s =
     (case handle_line j now dr cid line s of Inl e \<Rightarrow> Inl (e, s) | Inr s' \<Rightarrow> Inr ([], s'))"
  by (simp add: process_buffer_line[OF assms] process_buffer_rest split: sum.splits)

lemma disconnect_client_eval:
  "disconnect_client cid s =
     print_players_online
       ((broadcast_to_all (PlayerLeft cid) (close_and_forget cid s))
          \<lparr>console := console (broadcast_to_all (PlayerLeft cid) (close_and_forget cid s)) @ [ClientDisconnected cid]\<rparr>)"
  by (simp add: disconnect_client.simps Let_def)

text \<open>
  Claim C7 asks that a send which fails during a broadcast neither stops the delivery to the
  other sessions nor leaves its session alive: the session is to be disconnected after the
  pass. The first half holds. The second does not: \<^verbatim>\<open>send_to_client\<close> catches the exception
  itself, so \<^verbatim>\<open>broadcast_to_all\<close> never collects a client. With a first client whose socket
  fails and a second whose socket works, the second receives the message, and the first is
  still a session and a player afterwards; no \<^verbatim>\<open>player_left\<close> is broadcast.
\<close>

theorem broadcast_keeps_failed_session:
  "map fst (clients (broadcast_to_all (GameStarted 2) example_one_broken)) = [1, 2]
   \<and> map (\<lambda>(cid, info). wire (socket info)) (clients (broadcast_to_all (GameStarted 2) example_one_broken))
        = [[], [GameStarted 2]]
   \<and> map fst (players (broadcast_to_all (GameStarted 2) example_one_broken)) = [1, 2]
   \<and> console (broadcast_to_all (GameStarted 2) example_one_broken) = [ErrorSending OSError]
   \<and> broadcast_log (broadcast_to_all (GameStarted 2) example_one_broken) = [GameStarted 2]"
  by (simp add: broadcast_to_all_eq example_one_broken_def initial_server_def send_to_client_Inr
      set_socket_def example_broken_sock_def example_sock_def new_player_def)

text \<open>
  Claim C9 asks that \<^verbatim>\<open>info_request\<close> is answered with \<^verbatim>\<open>server_info\<close> and leaves the
  connection alive. In the code the branch raises \<^verbatim>\<open>NameError\<close> in every state, before
  anything is sent; the reader of the connection catches it and disconnects the session.
  For client 2 of two clients: the reader finishes, only client 1 is left, and the one
  message written is the \<^verbatim>\<open>player_left\<close> sent to client 1.
\<close>

theorem info_request_raises:
  "process_client_message now draws cid (JDict [(''type'', JStr ''info_request'')]) s = Inl NameError
   \<and> fst (handle_client (decodes (text_of info_request_line) (JDict [(''type'', JStr ''info_request'')]))
            0 (sconst (0, 0)) 2 [] (Data (text_of info_request_line @ [10])) example_two_clients) = Finished
   \<and> map fst (clients (snd (handle_client
            (decodes (text_of info_request_line) (JDict [(''type'', JStr ''info_request'')]))
            0 (sconst (0, 0)) 2 [] (Data (text_of info_request_line @ [10])) example_two_clients))) = [1]
   \<and> map (\<lambda>(cid, info). wire (socket info))
        (clients (snd (handle_client
            (decodes (text_of info_request_line) (JDict [(''type'', JStr ''info_request'')]))
            0 (sconst (0, 0)) 2 [] (Data (text_of info_request_line @ [10])) example_two_clients)))
        = [[PlayerLeft 2]]"
proof -
  have a: "process_client_message now draws cid (JDict [(''type'', JStr ''info_request'')]) s = Inl NameError"
    for now draws cid s
    by (simp add: process_client_message_def msg_get_def)
  have nl: "10 \<notin> set (text_of info_request_line)"
    by (simp add: info_request_line_def quoted_def text_of_def)
  have st: "strip (text_of info_request_line) = text_of info_request_line"
    by (simp add: info_request_line_def quoted_def strip_def is_space_def text_of_def)
  have ne: "text_of info_request_line \<noteq> []"
    by (simp add: info_request_line_def text_of_def)
  have h: "handle_line (decodes (text_of info_request_line) (JDict [(''type'', JStr ''info_request'')]))
      0 (sconst (0, 0)) 2 (text_of info_request_line) example_two_clients = Inl NameError"
    unfolding handle_line_def st by (simp add: decodes_def a ne)
  have r: "handle_client (decodes (text_of info_request_line) (JDict [(''type'', JStr ''info_request'')]))
            0 (sconst (0, 0)) 2 [] (Data (text_of info_request_line @ [10])) example_two_clients
      = (Finished, disconnect_client 2 (example_two_clients\<lparr>console := console example_two_clients @ [ErrorHandling 2 NameError]\<rparr>))"
  proof -
    have run: "running example_two_clients"
      by (simp add: example_two_clients_def initial_server_def)
    have look: "map_of (clients example_two_clients) 2
        = Some \<lparr>socket = example_sock, address = ''b'', is_connected = True, last_heartbeat = 0\<rparr>"
      by (simp add: example_two_clients_def initial_server_def)
    show ?thesis
      by (simp add: handle_client_def run look process_buffer_one_line[OF nl] h)
  qed
  show ?thesis
    unfolding r
    by (simp add: a disconnect_client_eval broadcast_to_all_eq close_and_forget_def print_players_online_def
        example_two_clients_def initial_server_def send_to_client_Inr set_socket_def example_sock_def)
qed

lemma process_client_message_unknown:
  assumes "map_of d ''type'' \<notin> {Some (JStr ''player_update''), Some (JStr ''player_action''),
     Some (JStr ''heartbeat''), Some (JStr ''start_game''), Some (JStr ''set_difficulty''),
     Some (JStr ''info_request'')}"
  shows "process_client_message now draws cid (JDict d) s = Inr s"
  using assms by (simp add: process_client_message_def msg_get_def)

lemma difficulty_of_none:
  assumes "v \<notin> {JNum 1, JNum 2, JNum 3, JBool True}"
  shows "difficulty_of v = None"
  using assms by (cases v) (simp_all add: difficulty_of_def)

lemma process_client_message_bad_difficulty:
  assumes "map_of d ''type'' = Some (JStr ''set_difficulty'')"
    "map_of d ''difficulty'' \<notin> {Some (JNum 1), Some (JNum 2), Some (JNum 3), Some (JBool True)}"
  shows "process_client_message now draws cid (JDict d) s = Inr s"
proof (cases "map_of d ''difficulty''")
  case None
  with assms(1) show ?thesis by (simp add: process_client_message_def msg_get_def)
next
  case (Some v)
  with assms(2) have "v \<notin> {JNum 1, JNum 2, JNum 3, JBool True}" by simp
  then have "difficulty_of v = None" by (rule difficulty_of_none)
  with assms(1) Some show ?thesis by (simp add: process_client_message_def msg_get_def)
qed

lemma process_client_message_bad_action:
  assumes "map_of d ''type'' = Some (JStr ''player_action'')"
    "map_of d ''action'' \<noteq> Some (JStr ''sword_attack'') \<or> map_of (players s) cid = None"
  shows "process_client_message now draws cid (JDict d) s = Inr s"
  using assms by (auto simp: process_client_message_def msg_get_def split: option.splits)

lemma process_client_message_no_data:
  assumes "map_of d ''type'' = Some (JStr ''player_update'')"
    "map_of d ''data'' = None \<or> map_of (players s) cid = None"
  shows "process_client_message now draws cid (JDict d) s = Inr s"
  using assms by (auto simp: process_client_message_def msg_get_def split: option.splits)

lemma process_client_message_non_object:
  assumes "\<forall>d. v \<noteq> JDict d"
  shows "process_client_message now draws cid v s = Inl AttributeError"
  using assms by (cases v) (simp_all add: process_client_message_def msg_get_def)

lemma process_client_message_bad_data:
  assumes "map_of d ''type'' = Some (JStr ''player_update'')" "map_of (players s) cid = Some p"
    "map_of d ''data'' = Some v" "\<forall>kvs. v \<noteq> JDict kvs"
  shows "process_client_message now draws cid (JDict d) s = Inl AttributeError"
  using assms by (cases v) (simp_all add: process_client_message_def msg_get_def)

lemma handle_client_data:
  assumes "running s" "map_of (clients s) cid = Some info" "is_connected info" "data \<noteq> []"
  shows "handle_client j now draws cid buffer (Data data) s =
     (case process_buffer j now draws cid (buffer @ data) s of
        Inr (buffer', s') \<Rightarrow> (Reading buffer', s')
      | Inl (e, s') \<Rightarrow>
          (Finished, disconnect_client cid (s'\<lparr>console := console s' @ [ErrorHandling cid e]\<rparr>)))"
  using assms by (simp add: handle_client_def)

lemma handle_client_one_line:
  assumes "running s" "map_of (clients s) cid = Some info" "is_connected info"
    "buffer @ data = line @ [10]" "data \<noteq> []" "10 \<notin> set line"
  shows "handle_client j now draws cid buffer (Data data) s =
     (case handle_line j now draws cid line s of
        Inl e \<Rightarrow> (Finished, disconnect_client cid (s\<lparr>console := console s @ [ErrorHandling cid e]\<rparr>))
      | Inr s' \<Rightarrow> (Reading [], s'))"
  using assms
  by (simp add: handle_client_def process_buffer_one_line split: sum.splits)

lemma disconnect_client_gone:
  "map_of (clients (disconnect_client cid s)) cid = None"
  "map_of (players (disconnect_client cid s)) cid = None"
proof -
  from disconnect_client_shape[of cid s] obtain cl' out where
    d: "disconnect_client cid s =
       s\<lparr>clients := cl', players := AList.delete cid (players s), console := console s @ out,
         broadcast_log := broadcast_log s @ [PlayerLeft cid]\<rparr>"
    and k: "map fst cl' = filter (\<lambda>j. j \<noteq> cid) (map fst (clients s))"
    by blast
  have "cid \<notin> set (map fst cl')"
    unfolding k by simp
  then have "cid \<notin> fst ` set cl'"
    by simp
  then have "map_of cl' cid = None"
    by (simp add: map_of_eq_None_iff)
  then show "map_of (clients (disconnect_client cid s)) cid = None"
    by (simp add: d)
  show "map_of (players (disconnect_client cid s)) cid = None"
    by (simp add: d delete_conv')
qed

text \<open>
  Claim C8, as amended. The reader handles the complete lines of what it has received one
  after the other; \<open>line\<close> is any of them and \<open>rest\<close> what follows its line feed.
  A blank line is skipped. A line on which \<^verbatim>\<open>json.loads\<close> raises \<^verbatim>\<open>JSONDecodeError\<close> is
  printed and dropped, and the loop goes on with \<open>rest\<close>. A decoded object changes
  nothing, and the loop goes on with \<open>rest\<close>, when its \<^verbatim>\<open>type\<close> is none of the six
  known ones, when it is a \<^verbatim>\<open>set_difficulty\<close> whose \<^verbatim>\<open>difficulty\<close> is missing or none
  of 1, 2, 3, a \<^verbatim>\<open>player_action\<close> whose \<^verbatim>\<open>action\<close> is missing or not
  \<^verbatim>\<open>sword_attack\<close> or whose client has no player, or a \<^verbatim>\<open>player_update\<close> without
  \<^verbatim>\<open>data\<close> or of a client without player. Three kinds of line raise out of the loop, at
  the state that the lines before them have produced: a line on which \<^verbatim>\<open>json.loads\<close>
  raises another exception than \<^verbatim>\<open>JSONDecodeError\<close>, a decoded value that is not an
  object, and a \<^verbatim>\<open>player_update\<close> of a player whose \<^verbatim>\<open>data\<close> is not an object
  (\<^verbatim>\<open>AttributeError\<close>). The reader of a connected client, given a chunk that is not empty,
  runs this loop: when the loop returns it goes on reading with what is left of the buffer,
  and when the loop raises, \<^verbatim>\<open>except Exception\<close> prints the exception, leaves the reader
  and disconnects the client, which is then neither a session nor a player.
\<close>

theorem malformed_messages:
  assumes "10 \<notin> set line"
  shows "(strip line = [] \<longrightarrow>
            process_buffer json_loads now draws cid (line @ 10 # rest) s
              = process_buffer json_loads now draws cid rest s)
       \<and> (strip line \<noteq> [] \<and> json_loads (strip line) = JSONDecodeError \<longrightarrow>
            process_buffer json_loads now draws cid (line @ 10 # rest) s
              = process_buffer json_loads now draws cid rest
                  (s\<lparr>console := console s @ [InvalidJSON cid line]\<rparr>))
       \<and> (\<forall>d. strip line \<noteq> [] \<and> json_loads (strip line) = Decoded (JDict d)
              \<and> (map_of d ''type'' \<notin> {Some (JStr ''player_update''), Some (JStr ''player_action''),
                     Some (JStr ''heartbeat''), Some (JStr ''start_game''),
                     Some (JStr ''set_difficulty''), Some (JStr ''info_request'')}
                  \<or> map_of d ''type'' = Some (JStr ''set_difficulty'')
                     \<and> map_of d ''difficulty'' \<notin> {Some (JNum 1), Some (JNum 2), Some (JNum 3), Some (JBool True)}
                  \<or> map_of d ''type'' = Some (JStr ''player_action'')
                     \<and> (map_of d ''action'' \<noteq> Some (JStr ''sword_attack'') \<or> map_of (players s) cid = None)
                  \<or> map_of d ''type'' = Some (JStr ''player_update'')
                     \<and> (map_of d ''data'' = None \<or> map_of (players s) cid = None)) \<longrightarrow>
            process_buffer json_loads now draws cid (line @ 10 # rest) s
              = process_buffer json_loads now draws cid rest s)
       \<and> (\<forall>e. strip line \<noteq> [] \<and> json_loads (strip line) = DecodeRaised e \<longrightarrow>
            process_buffer json_loads now draws cid (line @ 10 # rest) s = Inl (e, s))
       \<and> (\<forall>v. strip line \<noteq> [] \<and> json_loads (strip line) = Decoded v \<and> (\<forall>d. v \<noteq> JDict d) \<longrightarrow>
            process_buffer json_loads now draws cid (line @ 10 # rest) s = Inl (AttributeError, s))
       \<and> (\<forall>d p v. strip line \<noteq> [] \<and> json_loads (strip line) = Decoded (JDict d)
              \<and> map_of d ''type'' = Some (JStr ''player_update'') \<and> map_of (players s) cid = Some p
              \<and> map_of d ''data'' = Some v \<and> (\<forall>kvs. v \<noteq> JDict kvs) \<longrightarrow>
            process_buffer json_loads now draws cid (line @ 10 # rest) s = Inl (AttributeError, s))
       \<and> (\<forall>info buffer data. running s \<and> map_of (clients s) cid = Some info \<and> is_connected info
              \<and> data \<noteq> [] \<longrightarrow>
            handle_client json_loads now draws cid buffer (Data data) s
              = (case process_buffer json_loads now draws cid (buffer @ data) s of
                   Inr (buffer', s') \<Rightarrow> (Reading buffer', s')
                 | Inl (e, s') \<Rightarrow>
                     (Finished,
                      disconnect_client cid (s'\<lparr>console := console s' @ [ErrorHandling cid e]\<rparr>))))
       \<and> (\<forall>s'. map_of (clients (disconnect_client cid s')) cid = None
              \<and> map_of (players (disconnect_client cid s')) cid = None)"
proof -
  note one = process_buffer_line[OF assms, of json_loads now draws cid rest s]
  have 1: "strip line = [] \<longrightarrow>
            process_buffer json_loads now draws cid (line @ 10 # rest) s
              = process_buffer json_loads now draws cid rest s"
    by (simp add: one handle_line_def)
  have 2: "strip line \<noteq> [] \<and> json_loads (strip line) = JSONDecodeError \<longrightarrow>
            process_buffer json_loads now draws cid (line @ 10 # rest) s
              = process_buffer json_loads now draws cid rest
                  (s\<lparr>console := console s @ [InvalidJSON cid line]\<rparr>)"
    by (simp add: one handle_line_def)
  have 3: "\<forall>d. strip line \<noteq> [] \<and> json_loads (strip line) = Decoded (JDict d)
              \<and> (map_of d ''type'' \<notin> {Some (JStr ''player_update''), Some (JStr ''player_action''),
                     Some (JStr ''heartbeat''), Some (JStr ''start_game''),
                     Some (JStr ''set_difficulty''), Some (JStr ''info_request'')}
                  \<or> map_of d ''type'' = Some (JStr ''set_difficulty'')
                     \<and> map_of d ''difficulty'' \<notin> {Some (JNum 1), Some (JNum 2), Some (JNum 3), Some (JBool True)}
                  \<or> map_of d ''type'' = Some (JStr ''player_action'')
                     \<and> (map_of d ''action'' \<noteq> Some (JStr ''sword_attack'') \<or> map_of (players s) cid = None)
                  \<or> map_of d ''type'' = Some (JStr ''player_update'')
                     \<and> (map_of d ''data'' = None \<or> map_of (players s) cid = None)) \<longrightarrow>
            process_buffer json_loads now draws cid (line @ 10 # rest) s
              = process_buffer json_loads now draws cid rest s"
  proof (intro allI impI, elim conjE)
    fix d
    assume ne: "strip line \<noteq> []" and dec: "json_loads (strip line) = Decoded (JDict d)"
      and c: "map_of d ''type'' \<notin> {Some (JStr ''player_update''), Some (JStr ''player_action''),
                     Some (JStr ''heartbeat''), Some (JStr ''start_game''),
                     Some (JStr ''set_difficulty''), Some (JStr ''info_request'')}
                  \<or> map_of d ''type'' = Some (JStr ''set_difficulty'')
                     \<and> map_of d ''difficulty'' \<notin> {Some (JNum 1), Some (JNum 2), Some (JNum 3), Some (JBool True)}
                  \<or> map_of d ''type'' = Some (JStr ''player_action'')
                     \<and> (map_of d ''action'' \<noteq> Some (JStr ''sword_attack'') \<or> map_of (players s) cid = None)
                  \<or> map_of d ''type'' = Some (JStr ''player_update'')
                     \<and> (map_of d ''data'' = None \<or> map_of (players s) cid = None)"
    have "process_client_message now draws cid (JDict d) s = Inr s"
      using c process_client_message_unknown[of d now draws cid s]
        process_client_message_bad_difficulty[of d now draws cid s]
        process_client_message_bad_action[of d s cid now draws]
        process_client_message_no_data[of d s cid now draws]
      by blast
    then show "process_buffer json_loads now draws cid (line @ 10 # rest) s
              = process_buffer json_loads now draws cid rest s"
      using ne dec by (simp add: one handle_line_def)
  qed
  have 4: "\<forall>e. strip line \<noteq> [] \<and> json_loads (strip line) = DecodeRaised e \<longrightarrow>
            process_buffer json_loads now draws cid (line @ 10 # rest) s = Inl (e, s)"
    by (simp add: one handle_line_def)
  have 5: "\<forall>v. strip line \<noteq> [] \<and> json_loads (strip line) = Decoded v \<and> (\<forall>d. v \<noteq> JDict d) \<longrightarrow>
            process_buffer json_loads now draws cid (line @ 10 # rest) s = Inl (AttributeError, s)"
    using process_client_message_non_object[of _ now draws cid s]
    by (simp add: one handle_line_def)
  have 6: "\<forall>d p v. strip line \<noteq> [] \<and> json_loads (strip line) = Decoded (JDict d)
              \<and> map_of d ''type'' = Some (JStr ''player_update'') \<and> map_of (players s) cid = Some p
              \<and> map_of d ''data'' = Some v \<and> (\<forall>kvs. v \<noteq> JDict kvs) \<longrightarrow>
            process_buffer json_loads now draws cid (line @ 10 # rest) s = Inl (AttributeError, s)"
  proof (intro allI impI, elim conjE)
    fix d p v
    assume ne: "strip line \<noteq> []" and dec: "json_loads (strip line) = Decoded (JDict d)"
      and h: "map_of d ''type'' = Some (JStr ''player_update'')" "map_of (players s) cid = Some p"
        "map_of d ''data'' = Some v" "\<forall>kvs. v \<noteq> JDict kvs"
    have "process_client_message now draws cid (JDict d) s = Inl AttributeError"
      by (rule process_client_message_bad_data[OF h])
    then show "process_buffer json_loads now draws cid (line @ 10 # rest) s = Inl (AttributeError, s)"
      using ne dec by (simp add: one handle_line_def)
  qed
  have 7: "\<forall>info buffer data. running s \<and> map_of (clients s) cid = Some info \<and> is_connected info
              \<and> data \<noteq> [] \<longrightarrow>
            handle_client json_loads now draws cid buffer (Data data) s
              = (case process_buffer json_loads now draws cid (buffer @ data) s of
                   Inr (buffer', s') \<Rightarrow> (Reading buffer', s')
                 | Inl (e, s') \<Rightarrow>
                     (Finished,
                      disconnect_client cid (s'\<lparr>console := console s' @ [ErrorHandling cid e]\<rparr>)))"
    by (intro allI impI, elim conjE) (rule handle_client_data)
  have 8: "\<forall>s'. map_of (clients (disconnect_client cid s')) cid = None
              \<and> map_of (players (disconnect_client cid s')) cid = None"
    by (simp add: disconnect_client_gone)
  show ?thesis
    by (intro conjI 1 2 3 4 5 6 7 8)
qed

lemma example_two_clients_reader:
  "running example_two_clients"
  "map_of (clients example_two_clients) 2
     = Some \<lparr>socket = example_sock, address = ''b'', is_connected = True, last_heartbeat = 0\<rparr>"
  "map_of (players example_two_clients) 2 = Some (new_player 2)"
  by (simp_all add: example_two_clients_def initial_server_def)

lemma disconnect_second_of_two:
  "map fst (clients (disconnect_client 2 (example_two_clients\<lparr>console := c\<rparr>))) = [1]"
  by (simp add: disconnect_client_keys example_two_clients_def initial_server_def)

text \<open>
  Claim C8 as stated fails: a message that is not an object, and a \<^verbatim>\<open>player_update\<close> whose
  \<^verbatim>\<open>data\<close> is a number, end the reader of client 2 and remove its session.
\<close>

theorem non_object_message_ends_session:
  "process_client_message 0 (sconst (0, 0)) 2 (JList []) example_two_clients = Inl AttributeError
   \<and> fst (handle_client (decodes (text_of ''[]'') (JList [])) 0 (sconst (0, 0)) 2 []
            (Data (text_of ''[]'' @ [10])) example_two_clients) = Finished
   \<and> map fst (clients (snd (handle_client (decodes (text_of ''[]'') (JList [])) 0 (sconst (0, 0)) 2 []
            (Data (text_of ''[]'' @ [10])) example_two_clients))) = [1]
   \<and> fst (handle_client
            (decodes (text_of ''p'') (JDict [(''type'', JStr ''player_update''), (''data'', JNum 5)]))
            0 (sconst (0, 0)) 2 [] (Data (text_of ''p'' @ [10])) example_two_clients) = Finished
   \<and> map fst (clients (snd (handle_client
            (decodes (text_of ''p'') (JDict [(''type'', JStr ''player_update''), (''data'', JNum 5)]))
            0 (sconst (0, 0)) 2 [] (Data (text_of ''p'' @ [10])) example_two_clients))) = [1]"
proof -
  have a: "process_client_message 0 (sconst (0, 0)) 2 (JList []) example_two_clients = Inl AttributeError"
    by (simp add: process_client_message_non_object)
  have b: "process_client_message 0 (sconst (0, 0)) 2
      (JDict [(''type'', JStr ''player_update''), (''data'', JNum 5)]) example_two_clients = Inl AttributeError"
    by (rule process_client_message_bad_data[where p = "new_player 2" and v = "JNum 5"])
       (simp_all add: example_two_clients_reader)
  have 1: "handle_client (decodes (text_of ''[]'') (JList [])) 0 (sconst (0, 0)) 2 []
            (Data (text_of ''[]'' @ [10])) example_two_clients
      = (Finished, disconnect_client 2 (example_two_clients\<lparr>console := console example_two_clients @ [ErrorHandling 2 AttributeError]\<rparr>))"
    by (subst handle_client_one_line[where line = "text_of ''[]''", OF example_two_clients_reader(1,2)])
       (simp_all add: handle_line_def strip_def is_space_def decodes_def a text_of_def)
  have 2: "handle_client (decodes (text_of ''p'') (JDict [(''type'', JStr ''player_update''), (''data'', JNum 5)]))
            0 (sconst (0, 0)) 2 [] (Data (text_of ''p'' @ [10])) example_two_clients
      = (Finished, disconnect_client 2 (example_two_clients\<lparr>console := console example_two_clients @ [ErrorHandling 2 AttributeError]\<rparr>))"
    by (subst handle_client_one_line[where line = "text_of ''p''", OF example_two_clients_reader(1,2)])
       (simp_all add: handle_line_def strip_def is_space_def decodes_def b text_of_def)
  show ?thesis
    by (simp only: 1 2 a fst_conv snd_conv disconnect_second_of_two)
qed

lemma example_lines:
  "10 \<notin> set (text_of ''hello'')" "strip (text_of ''hello'') = text_of ''hello''"
  "10 \<notin> set (text_of ''u'')" "strip (text_of ''u'') = text_of ''u''"
  "10 \<notin> set (text_of ''[]'')" "strip (text_of ''[]'') = text_of ''[]''"
  "10 \<notin> set (text_of ''[['')" "strip (text_of ''[['') = text_of ''[[''"
  "10 \<notin> set (text_of ''p'')" "strip (text_of ''p'') = text_of ''p''"
  "10 \<notin> set (text_of '' '')" "strip (text_of '' '') = []"
  by (simp_all add: strip_def is_space_def text_of_def)

theorem malformed_messages_witness:
  "10 \<notin> set (text_of ''hello'') \<and> strip (text_of ''hello'') \<noteq> []
   \<and> decodes (text_of ''u'') (JDict [(''type'', JStr ''dance'')]) (strip (text_of ''hello'')) = JSONDecodeError
   \<and> decodes (text_of ''u'') (JDict [(''type'', JStr ''dance'')]) (strip (text_of ''u''))
       = Decoded (JDict [(''type'', JStr ''dance'')])
   \<and> running example_two_clients
   \<and> map_of (clients example_two_clients) 2
       = Some \<lparr>socket = example_sock, address = ''b'', is_connected = True, last_heartbeat = 0\<rparr>
   \<and> map_of (players example_two_clients) 2 = Some (new_player 2)
   \<and> handle_client (decodes (text_of ''u'') (JDict [(''type'', JStr ''dance'')])) 0 (sconst (0, 0)) 2 []
        (Data (text_of ''hello'' @ 10 # text_of ''u'' @ 10 # text_of '' '' @ 10 # text_of ''hel'')) example_two_clients
       = (Reading (text_of ''hel''),
          example_two_clients\<lparr>console := console example_two_clients @ [InvalidJSON 2 (text_of ''hello'')]\<rparr>)
   \<and> handle_client (decodes (text_of ''[]'') (JList [])) 0 (sconst (0, 0)) 2 []
        (Data (text_of ''hello'' @ 10 # text_of ''[]'' @ 10 # text_of ''u'' @ [10])) example_two_clients
       = (Finished, disconnect_client 2
            (example_two_clients\<lparr>console := console example_two_clients
               @ [InvalidJSON 2 (text_of ''hello''), ErrorHandling 2 AttributeError]\<rparr>))
   \<and> handle_client (\<lambda>line. DecodeRaised RecursionError) 0 (sconst (0, 0)) 2 []
        (Data (text_of ''[['' @ 10 # text_of ''u'' @ [10])) example_two_clients
       = (Finished, disconnect_client 2
            (example_two_clients\<lparr>console := console example_two_clients @ [ErrorHandling 2 RecursionError]\<rparr>))
   \<and> handle_client (decodes (text_of ''p'') (JDict [(''type'', JStr ''player_update''), (''data'', JNum 5)]))
        0 (sconst (0, 0)) 2 [] (Data (text_of ''p'' @ 10 # text_of ''u'' @ [10])) example_two_clients
       = (Finished, disconnect_client 2
            (example_two_clients\<lparr>console := console example_two_clients @ [ErrorHandling 2 AttributeError]\<rparr>))
   \<and> map_of (clients (disconnect_client 2
            (example_two_clients\<lparr>console := console example_two_clients @ [ErrorHandling 2 AttributeError]\<rparr>))) 2 = None"
proof -
  note r = example_two_clients_reader
  note l = example_lines
  let ?s = "example_two_clients"
  let ?logged = "example_two_clients\<lparr>console := console example_two_clients @ [InvalidJSON 2 (text_of ''hello'')]\<rparr>"
  let ?dance = "JDict [(''type'', JStr ''dance'')]"
  let ?j1 = "decodes (text_of ''u'') ?dance"
  let ?j3 = "decodes (text_of ''[]'') (JList [])"
  let ?j4 = "\<lambda>line :: unicode. DecodeRaised RecursionError"
  let ?upd = "JDict [(''type'', JStr ''player_update''), (''data'', JNum 5)]"
  let ?j5 = "decodes (text_of ''p'') ?upd"
  have conn: "is_connected \<lparr>socket = example_sock, address = ''b'', is_connected = True, last_heartbeat = 0\<rparr>"
    by simp
  have reader: "running ?s \<and> map_of (clients ?s) 2
       = Some \<lparr>socket = example_sock, address = ''b'', is_connected = True, last_heartbeat = 0\<rparr>
     \<and> is_connected \<lparr>socket = example_sock, address = ''b'', is_connected = True, last_heartbeat = 0\<rparr>
     \<and> data \<noteq> []" if "data \<noteq> []" for data :: unicode
    using that by (intro conjI r conn)
  have d1: "?j1 (strip (text_of ''hello'')) = JSONDecodeError"
    unfolding l by (simp add: decodes_def text_of_def)
  have d2: "?j1 (strip (text_of ''u'')) = Decoded ?dance"
    by (simp add: l decodes_def)
  have ne1: "strip (text_of ''hello'') \<noteq> []" and ne2: "strip (text_of ''u'') \<noteq> []"
    and ne3: "strip (text_of ''[]'') \<noteq> []" and ne4: "strip (text_of ''[['') \<noteq> []"
    and ne5: "strip (text_of ''p'') \<noteq> []"
    unfolding l by (simp_all add: text_of_def)
  note a1 = malformed_messages[OF l(1), of ?j1 0 "sconst (0, 0)" 2
      "text_of ''u'' @ 10 # text_of '' '' @ 10 # text_of ''hel''" ?s]
  have s1: "process_buffer ?j1 0 (sconst (0, 0)) 2
        (text_of ''hello'' @ 10 # text_of ''u'' @ 10 # text_of '' '' @ 10 # text_of ''hel'') ?s
      = process_buffer ?j1 0 (sconst (0, 0)) 2 (text_of ''u'' @ 10 # text_of '' '' @ 10 # text_of ''hel'') ?logged"
    by (rule a1[THEN conjunct2, THEN conjunct1, THEN mp, OF conjI[OF ne1 d1]])
  note a2 = malformed_messages[OF l(3), of ?j1 0 "sconst (0, 0)" 2 "text_of '' '' @ 10 # text_of ''hel''" ?logged]
  have unknown: "map_of [(''type'', JStr ''dance'')] ''type'' \<notin> {Some (JStr ''player_update''), Some (JStr ''player_action''),
                     Some (JStr ''heartbeat''), Some (JStr ''start_game''),
                     Some (JStr ''set_difficulty''), Some (JStr ''info_request'')}"
    by simp
  have s2: "process_buffer ?j1 0 (sconst (0, 0)) 2 (text_of ''u'' @ 10 # text_of '' '' @ 10 # text_of ''hel'') ?logged
      = process_buffer ?j1 0 (sconst (0, 0)) 2 (text_of '' '' @ 10 # text_of ''hel'') ?logged"
    by (rule a2[THEN conjunct2, THEN conjunct2, THEN conjunct1, rule_format,
          OF conjI[OF ne2 conjI[OF d2 disjI1[OF unknown]]]])
  note a3 = malformed_messages[OF l(11), of ?j1 0 "sconst (0, 0)" 2 "text_of ''hel''" ?logged]
  have s3: "process_buffer ?j1 0 (sconst (0, 0)) 2 (text_of '' '' @ 10 # text_of ''hel'') ?logged
      = process_buffer ?j1 0 (sconst (0, 0)) 2 (text_of ''hel'') ?logged"
    by (rule a3[THEN conjunct1, THEN mp, OF l(12)])
  have s4: "process_buffer ?j1 0 (sconst (0, 0)) 2 (text_of ''hel'') ?logged = Inr (text_of ''hel'', ?logged)"
    by (rule process_buffer_rest) (simp add: text_of_def)
  have w1: "handle_client ?j1 0 (sconst (0, 0)) 2 []
        (Data (text_of ''hello'' @ 10 # text_of ''u'' @ 10 # text_of '' '' @ 10 # text_of ''hel'')) ?s
       = (Reading (text_of ''hel''), ?logged)"
    using a1[THEN conjunct2, THEN conjunct2, THEN conjunct2, THEN conjunct2, THEN conjunct2,
        THEN conjunct2, THEN conjunct1, rule_format, OF reader,
        of "text_of ''hello'' @ 10 # text_of ''u'' @ 10 # text_of '' '' @ 10 # text_of ''hel''" "[]"]
    by (simp add: s1 s2 s3 s4)
  note b1 = malformed_messages[OF l(1), of ?j3 0 "sconst (0, 0)" 2 "text_of ''[]'' @ 10 # text_of ''u'' @ [10]" ?s]
  have d3: "?j3 (strip (text_of ''hello'')) = JSONDecodeError"
    unfolding l by (simp add: decodes_def text_of_def)
  have t1: "process_buffer ?j3 0 (sconst (0, 0)) 2
        (text_of ''hello'' @ 10 # text_of ''[]'' @ 10 # text_of ''u'' @ [10]) ?s
      = process_buffer ?j3 0 (sconst (0, 0)) 2 (text_of ''[]'' @ 10 # text_of ''u'' @ [10]) ?logged"
    by (rule b1[THEN conjunct2, THEN conjunct1, THEN mp, OF conjI[OF ne1 d3]])
  note b2 = malformed_messages[OF l(5), of ?j3 0 "sconst (0, 0)" 2 "text_of ''u'' @ [10]" ?logged]
  have d4: "?j3 (strip (text_of ''[]'')) = Decoded (JList [])"
    by (simp add: l decodes_def)
  have nd: "\<forall>d. JList [] \<noteq> JDict d" by simp
  have t2: "process_buffer ?j3 0 (sconst (0, 0)) 2 (text_of ''[]'' @ 10 # text_of ''u'' @ [10]) ?logged
      = Inl (AttributeError, ?logged)"
    by (rule b2[THEN conjunct2, THEN conjunct2, THEN conjunct2, THEN conjunct2, THEN conjunct1,
          rule_format, OF conjI[OF ne3 conjI[OF d4 nd]]])
  have w2: "handle_client ?j3 0 (sconst (0, 0)) 2 []
        (Data (text_of ''hello'' @ 10 # text_of ''[]'' @ 10 # text_of ''u'' @ [10])) ?s
       = (Finished, disconnect_client 2
            (?s\<lparr>console := console ?s @ [InvalidJSON 2 (text_of ''hello''), ErrorHandling 2 AttributeError]\<rparr>))"
    using b1[THEN conjunct2, THEN conjunct2, THEN conjunct2, THEN conjunct2, THEN conjunct2,
        THEN conjunct2, THEN conjunct1, rule_format, OF reader,
        of "text_of ''hello'' @ 10 # text_of ''[]'' @ 10 # text_of ''u'' @ [10]" "[]"]
    by (simp add: t1 t2)
  note c1 = malformed_messages[OF l(7), of ?j4 0 "sconst (0, 0)" 2 "text_of ''u'' @ [10]" ?s]
  have u1: "process_buffer ?j4 0 (sconst (0, 0)) 2 (text_of ''[['' @ 10 # text_of ''u'' @ [10]) ?s
      = Inl (RecursionError, ?s)"
    by (rule c1[THEN conjunct2, THEN conjunct2, THEN conjunct2, THEN conjunct1, rule_format,
          OF conjI[OF ne4 refl]])
  have w3: "handle_client ?j4 0 (sconst (0, 0)) 2 [] (Data (text_of ''[['' @ 10 # text_of ''u'' @ [10])) ?s
       = (Finished, disconnect_client 2 (?s\<lparr>console := console ?s @ [ErrorHandling 2 RecursionError]\<rparr>))"
    using c1[THEN conjunct2, THEN conjunct2, THEN conjunct2, THEN conjunct2, THEN conjunct2,
        THEN conjunct2, THEN conjunct1, rule_format, OF reader,
        of "text_of ''[['' @ 10 # text_of ''u'' @ [10]" "[]"]
    by (simp add: u1)
  note e1 = malformed_messages[OF l(9), of ?j5 0 "sconst (0, 0)" 2 "text_of ''u'' @ [10]" ?s]
  have d5: "?j5 (strip (text_of ''p'')) = Decoded ?upd"
    by (simp add: l decodes_def)
  have bad: "map_of [(''type'', JStr ''player_update''), (''data'', JNum 5)] ''type'' = Some (JStr ''player_update'')
      \<and> map_of (players ?s) 2 = Some (new_player 2)
      \<and> map_of [(''type'', JStr ''player_update''), (''data'', JNum 5)] ''data'' = Some (JNum 5)
      \<and> (\<forall>kvs. JNum 5 \<noteq> JDict kvs)"
    by (simp add: r)
  have v1: "process_buffer ?j5 0 (sconst (0, 0)) 2 (text_of ''p'' @ 10 # text_of ''u'' @ [10]) ?s
      = Inl (AttributeError, ?s)"
    by (rule e1[THEN conjunct2, THEN conjunct2, THEN conjunct2, THEN conjunct2, THEN conjunct2,
          THEN conjunct1, rule_format, OF conjI[OF ne5 conjI[OF d5 bad]]])
  have w4: "handle_client ?j5 0 (sconst (0, 0)) 2 [] (Data (text_of ''p'' @ 10 # text_of ''u'' @ [10])) ?s
       = (Finished, disconnect_client 2 (?s\<lparr>console := console ?s @ [ErrorHandling 2 AttributeError]\<rparr>))"
    using e1[THEN conjunct2, THEN conjunct2, THEN conjunct2, THEN conjunct2, THEN conjunct2,
        THEN conjunct2, THEN conjunct1, rule_format, OF reader,
        of "text_of ''p'' @ 10 # text_of ''u'' @ [10]" "[]"]
    by (simp add: v1)
  have w5: "map_of (clients (disconnect_client 2
            (?s\<lparr>console := console ?s @ [ErrorHandling 2 AttributeError]\<rparr>))) 2 = None"
    by (rule e1[THEN conjunct2, THEN conjunct2, THEN conjunct2, THEN conjunct2, THEN conjunct2,
        THEN conjunct2, THEN conjunct2, THEN spec, THEN conjunct1])
  show ?thesis
    by (intro conjI l(1) ne1 d1 d2 r w1 w2 w3 w4 w5)
qed

subsection \<open>Collisions\<close>






















lemma flag_update_same [simp]: "flag (AList.update k v d) k = truthy v"
  by (simp add: flag_def update_conv')

lemma flag_update_other [simp]: "k' \<noteq> k \<Longrightarrow> flag (AList.update k v d) k' = flag d k'"
  by (simp add: flag_def update_conv')

lemma num_field_update_same [simp]: "num_field (AList.update k (JNum r) d) k = Inr r"
  by (simp add: num_field_def update_conv')

lemma num_field_update_other [simp]:
  "k' \<noteq> k \<Longrightarrow> num_field (AList.update k v d) k' = num_field d k'"
  by (simp add: num_field_def update_conv')
















subsection \<open>Bullets\<close>























end
